theory Spec2Isabelle
  imports Complex_Main "HOL-Library.List_Lexorder" "HOL-Library.Char_ord"
begin

section \<open>Crop yield training pipeline (train\_model\_v2.py)\<close>

text \<open>
  Years are integers.  A float of the pipeline is modelled by the real number it denotes;
  where the pipeline multiplies or averages floats the rounding to float64 is a
  parameter, elsewhere (scores, the random draws and what is added to them) the
  arithmetic is that of the real numbers.  An integer of an int64 column is modelled as
  such, with its wrap-around.  A missing value (pandas \<open>NaN\<close>/\<open>None\<close>) is a value of
  its own.
\<close>

subsection \<open>Boolean-mask selection\<close>

text \<open>\<open>X[mask]\<close>: the rows of \<open>X\<close> at which the mask is true, in order.\<close>

definition select_mask :: "bool list \<Rightarrow> 'a list \<Rightarrow> 'a list" where
  "select_mask bs xs = map snd (filter fst (zip bs xs))"

subsection \<open>Temporal cross-validation\<close>

text \<open>
  \<open>temporal_cv(df, X, y, model, n_splits)\<close> reads of \<open>df\<close> only the column
  \<open>year\<close>: the argument \<open>yr\<close> is \<open>None\<close> when the column is absent and the
  column otherwise.  The estimator and the three scores are library code: \<open>ev\<close>
  stands for fit on the training rows, predict on the test rows, and score
  (R2, MAE, RMSE).
\<close>

record ('x, 'y) fold =
  test_year :: int
  train_mask :: "bool list"
  test_mask :: "bool list"
  X_train :: "'x list"
  y_train :: "'y list"
  X_test :: "'x list"
  y_test :: "'y list"

text \<open>\<open>sorted(df['year'].unique())\<close>\<close>

definition sorted_years :: "int list \<Rightarrow> int list" where
  "sorted_years yr = sort (remdups yr)"

text \<open>\<open>range(min(n_splits, len(years) - 2))\<close>\<close>

definition fold_range :: "int \<Rightarrow> int list \<Rightarrow> nat list" where
  "fold_range n_splits years = [0 ..< nat (min n_splits (int (length years) - 2))]"

text \<open>\<open>years[-(i + 1)]\<close>; the index is in range for every \<open>i\<close> of \<open>fold_range\<close>.\<close>

definition year_from_end :: "int list \<Rightarrow> nat \<Rightarrow> int" where
  "year_from_end years i = years ! (length years - (i + 1))"

definition train_years_of :: "int list \<Rightarrow> int \<Rightarrow> int list" where
  "train_years_of years ty = filter (\<lambda>y. y < ty) years"

text \<open>One iteration of the loop body: \<open>None\<close> is \<open>continue\<close>.\<close>

definition temporal_fold ::
  "int list \<Rightarrow> 'x list \<Rightarrow> 'y list \<Rightarrow> int list \<Rightarrow> nat \<Rightarrow> ('x, 'y) fold option" where
  "temporal_fold yr X y years i =
    (let ty = year_from_end years i;
         train_years = train_years_of years ty
     in if length train_years < 2 then None
        else
          let trm = map (\<lambda>v. v \<in> set train_years) yr;
              tem = map (\<lambda>v. v = ty) yr;
              Xtr = select_mask trm X; Xte = select_mask tem X;
              ytr = select_mask trm y; yte = select_mask tem y
          in if length Xte < 10 then None
             else Some \<lparr>test_year = ty, train_mask = trm, test_mask = tem,
                        X_train = Xtr, y_train = ytr, X_test = Xte, y_test = yte\<rparr>)"

text \<open>The folds that are fitted and recorded, in loop order.\<close>

definition temporal_folds ::
  "int list \<Rightarrow> 'x list \<Rightarrow> 'y list \<Rightarrow> int \<Rightarrow> ('x, 'y) fold list" where
  "temporal_folds yr X y n_splits =
    (let years = sorted_years yr
     in if length years < 3 then []
        else List.map_filter (temporal_fold yr X y years) (fold_range n_splits years))"

type_synonym cv_results = "string \<rightharpoonup> real list"

definition results_of :: "(real \<times> real \<times> real) list \<Rightarrow> cv_results" where
  "results_of ms = [''r2'' \<mapsto> map fst ms,
                    ''mae'' \<mapsto> map (fst \<circ> snd) ms,
                    ''rmse'' \<mapsto> map (snd \<circ> snd) ms]"

definition temporal_cv ::
  "('x list \<Rightarrow> 'y list \<Rightarrow> 'x list \<Rightarrow> 'y list \<Rightarrow> real \<times> real \<times> real) \<Rightarrow>
   int list option \<Rightarrow> 'x list \<Rightarrow> 'y list \<Rightarrow> int \<Rightarrow> cv_results" where
  "temporal_cv ev yr X y n_splits =
    (case yr of
       None \<Rightarrow> Map.empty
     | Some ys \<Rightarrow>
         if length (sorted_years ys) < 3 then Map.empty
         else results_of (map (\<lambda>f. ev (X_train f) (y_train f) (X_test f) (y_test f))
                              (temporal_folds ys X y n_splits)))"


text \<open>
  The condition under which a candidate fold with test year \<open>t\<close> is kept: at least
  two distinct training years and at least ten test rows.
\<close>

definition fold_kept :: "int list \<Rightarrow> 'x list \<Rightarrow> int list \<Rightarrow> int \<Rightarrow> bool" where
  "fold_kept yr X Y t \<longleftrightarrow>
     2 \<le> length (train_years_of Y t) \<and> 10 \<le> length (select_mask (map (\<lambda>v. v = t) yr) X)"

subsection \<open>Tables\<close>

text \<open>
  A cell of a pandas table is a float (\<open>Num\<close>, the real number the float64 value
  denotes), an integer of an int64 column (\<open>I64\<close>), a string or missing.  A table has
  its column names in order and its rows; a row gives a cell for every column name of the
  table (what it gives for other names is never read).  Two columns may bear one name
  after the names have been normalized; a row then gives under that name the cell of the
  first of them, and \<open>dup\<close> tells that a read by that name does not give a column.
\<close>

datatype cell = Num real | I64 int | Str string | NaN

datatype error = KeyError | TypeError | ZeroDivisionError | ValueError | AttributeError

type_synonym row = "string \<Rightarrow> cell"

record dataframe =
  columns :: "string list"
  rows :: "row list"

text \<open>\<open>len(df)\<close>, \<open>c in df.columns\<close>, \<open>df[c]\<close> and \<open>df[c] = vs\<close>.\<close>

definition len :: "dataframe \<Rightarrow> nat" where
  "len df = length (rows df)"

definition has_col :: "dataframe \<Rightarrow> string \<Rightarrow> bool" where
  "has_col df c \<longleftrightarrow> c \<in> set (columns df)"

definition get_col :: "dataframe \<Rightarrow> string \<Rightarrow> cell list" where
  "get_col df c = map (\<lambda>r. r c) (rows df)"

definition dup :: "dataframe \<Rightarrow> string \<Rightarrow> bool" where
  "dup df c \<longleftrightarrow> 1 < count_list (columns df) c"

text \<open>
  Assigning a column replaces it in place or appends it as the last column.  Every
  assignment of the pipeline gives one value per row.
\<close>

definition set_col :: "dataframe \<Rightarrow> string \<Rightarrow> cell list \<Rightarrow> dataframe" where
  "set_col df c vs =
     df\<lparr>columns := (if c \<in> set (columns df) then columns df else columns df @ [c]),
        rows := map (\<lambda>(r, v). r(c := v)) (zip (rows df) vs)\<rparr>"

subsection \<open>Strings: \<open>lower\<close> and \<open>strip\<close>\<close>

text \<open>
  A string is a list of characters with code points 0 to 255.  On these, \<open>str.lower\<close>
  maps the capital letters A to Z and the capital letters of the code points 192 to 222
  (all but the multiplication sign, 215) to the letter 32 code points above, and leaves
  every other character as it is.
\<close>

definition upper_letters :: string where
  "upper_letters =
     ''ABCDEFGHIJKLMNOPQRSTUVWXYZ'' @
     [CHR 0xC0, CHR 0xC1, CHR 0xC2, CHR 0xC3, CHR 0xC4, CHR 0xC5, CHR 0xC6, CHR 0xC7,
      CHR 0xC8, CHR 0xC9, CHR 0xCA, CHR 0xCB, CHR 0xCC, CHR 0xCD, CHR 0xCE, CHR 0xCF,
      CHR 0xD0, CHR 0xD1, CHR 0xD2, CHR 0xD3, CHR 0xD4, CHR 0xD5, CHR 0xD6,
      CHR 0xD8, CHR 0xD9, CHR 0xDA, CHR 0xDB, CHR 0xDC, CHR 0xDD, CHR 0xDE]"

definition lower_letters :: string where
  "lower_letters =
     ''abcdefghijklmnopqrstuvwxyz'' @
     [CHR 0xE0, CHR 0xE1, CHR 0xE2, CHR 0xE3, CHR 0xE4, CHR 0xE5, CHR 0xE6, CHR 0xE7,
      CHR 0xE8, CHR 0xE9, CHR 0xEA, CHR 0xEB, CHR 0xEC, CHR 0xED, CHR 0xEE, CHR 0xEF,
      CHR 0xF0, CHR 0xF1, CHR 0xF2, CHR 0xF3, CHR 0xF4, CHR 0xF5, CHR 0xF6,
      CHR 0xF8, CHR 0xF9, CHR 0xFA, CHR 0xFB, CHR 0xFC, CHR 0xFD, CHR 0xFE]"

definition lower_char :: "char \<Rightarrow> char" where
  "lower_char c =
     (case map_of (zip upper_letters lower_letters) c of
        Some d \<Rightarrow> d
      | None \<Rightarrow> c)"

definition py_lower :: "string \<Rightarrow> string" where
  "py_lower s = map lower_char s"

text \<open>
  The white space that \<open>str.strip\<close> removes, among the code points 0 to 255: tab, line
  feed, VT, FF, CR, the separators 28 to 31, space, next line (133) and no-break space
  (160).
\<close>

definition is_space :: "char \<Rightarrow> bool" where
  "is_space c \<longleftrightarrow>
     c \<in> set [CHR 0x09, CHR 0x0A, CHR 0x0B, CHR 0x0C, CHR 0x0D,
              CHR 0x1C, CHR 0x1D, CHR 0x1E, CHR 0x1F, CHR 0x20, CHR 0x85, CHR 0xA0]"

definition py_strip :: "string \<Rightarrow> string" where
  "py_strip s = rev (dropWhile is_space (rev (dropWhile is_space s)))"

subsection \<open>Agronomic outlier filter\<close>

definition CROP_YIELD_LIMITS :: "(string \<times> real \<times> real) list" where
  "CROP_YIELD_LIMITS =
     [(''rice'', (500, 8000)),
      (''wheat'', (500, 7000)),
      (''maize'', (500, 12000)),
      (''cotton'', (100, 3000)),
      (''sugarcane'', (30000, 150000)),
      (''groundnut'', (300, 4000)),
      (''soybean'', (300, 4000)),
      (''soyabean'', (300, 4000)),
      (''bajra'', (200, 3500)),
      (''jowar'', (200, 3500)),
      (''potato'', (5000, 50000)),
      (''onion'', (5000, 40000)),
      (''tomato'', (10000, 80000)),
      (''default'', (50, 100000))]"

text \<open>\<open>CROP_YIELD_LIMITS.get(crop, CROP_YIELD_LIMITS['default'])\<close>\<close>

definition default_limits :: "real \<times> real" where
  "default_limits = the (map_of CROP_YIELD_LIMITS ''default'')"

definition limits_get :: "string \<Rightarrow> real \<times> real" where
  "limits_get crop =
     (case map_of CROP_YIELD_LIMITS crop of Some l \<Rightarrow> l | None \<Rightarrow> default_limits)"

text \<open>
  \<open>crop = str(row[crop_col]).lower().strip()\<close> and the lookup.  \<open>str\<close> of a missing
  value is \<open>nan\<close>; \<open>str\<close> of a number is a numeral, which is no key of the table.
\<close>

definition crop_limits :: "cell \<Rightarrow> real \<times> real" where
  "crop_limits c =
     (case c of
        Str s \<Rightarrow> limits_get (py_strip (py_lower s))
      | NaN \<Rightarrow> limits_get ''nan''
      | Num _ \<Rightarrow> default_limits
      | I64 _ \<Rightarrow> default_limits)"

text \<open>
  The inner function \<open>is_valid_yield(row)\<close>, given the limits found for the row's crop.
  Comparing a string yield with \<open>0\<close> raises \<open>TypeError\<close>.
\<close>

definition valid_within :: "real \<times> real \<Rightarrow> cell \<Rightarrow> error + bool" where
  "valid_within limits y =
     (case y of
        NaN \<Rightarrow> Inr False
      | Str _ \<Rightarrow> Inl TypeError
      | Num yield_val \<Rightarrow>
          if yield_val \<le> 0 then Inr False
          else Inr (fst limits \<le> yield_val \<and> yield_val \<le> snd limits)
      | I64 yield_val \<Rightarrow>
          if yield_val \<le> 0 then Inr False
          else Inr (fst limits \<le> of_int yield_val \<and> of_int yield_val \<le> snd limits))"

definition is_valid_yield :: "string \<Rightarrow> string \<Rightarrow> row \<Rightarrow> error + bool" where
  "is_valid_yield crop_col yield_col r =
     (let limits = crop_limits (r crop_col)
      in valid_within limits (r yield_col))"

text \<open>\<open>df.apply(f, axis=1)\<close>: the first row at which \<open>f\<close> raises ends the run.\<close>

fun apply_rows :: "(row \<Rightarrow> error + bool) \<Rightarrow> row list \<Rightarrow> error + bool list" where
  "apply_rows f [] = Inr []"
| "apply_rows f (r # rs) =
     (case f r of
        Inl e \<Rightarrow> Inl e
      | Inr b \<Rightarrow> (case apply_rows f rs of Inl e \<Rightarrow> Inl e | Inr bs \<Rightarrow> Inr (b # bs)))"

text \<open>
  \<open>detect_agronomic_outliers(df, crop_col, yield_col)\<close>.  On a table without rows the
  summary line divides by \<open>initial_count = 0\<close>; on a table with rows, reading an
  absent column of a row raises \<open>KeyError\<close>.  Where two columns bear the yield name,
  the row gives both cells and testing them raises \<open>ValueError\<close>; where two bear the
  crop name, the text of both cells is no key of the table and the default limits apply.
\<close>

definition detect_agronomic_outliers :: "dataframe \<Rightarrow> string \<Rightarrow> string \<Rightarrow> error + dataframe" where
  "detect_agronomic_outliers df crop_col yield_col =
     (if len df = 0 then Inl ZeroDivisionError
      else if \<not> has_col df crop_col \<or> \<not> has_col df yield_col then Inl KeyError
      else if dup df yield_col then Inl ValueError
      else case apply_rows (if dup df crop_col
                            then (\<lambda>r. valid_within default_limits (r yield_col))
                            else is_valid_yield crop_col yield_col) (rows df) of
             Inl e \<Rightarrow> Inl e
           | Inr keep \<Rightarrow> Inr (df\<lparr>rows := select_mask keep (rows df)\<rparr>))"

subsection \<open>Unit conversion of the yield column (step 6) and the filter (step 7)\<close>

text \<open>
  Float arithmetic rounds: \<open>fl\<close> stands for the rounding of a real number to float64,
  which the hardware fixes; it is a parameter.  Integer arithmetic on an int64 column
  wraps around modulo \<open>2^64\<close>.
\<close>

definition wrap64 :: "int \<Rightarrow> int" where
  "wrap64 i = (i + 2 ^ 63) mod 2 ^ 64 - 2 ^ 63"

text \<open>A column is an int64 column when all its cells are integers.\<close>

definition is_int_col :: "cell list \<Rightarrow> bool" where
  "is_int_col cs = list_all (\<lambda>c. case c of I64 _ \<Rightarrow> True | _ \<Rightarrow> False) cs"

text \<open>
  \<open>Series.median()\<close> computes in float64 and skips missing values; it is missing
  itself (\<open>None\<close> here) when no value is left, and raises on a string.  Of an even
  number of values it is the mean of the two in the middle.
\<close>

definition nums_of :: "(real \<Rightarrow> real) \<Rightarrow> cell list \<Rightarrow> real list" where
  "nums_of fl cs =
     concat (map (\<lambda>c. case c of Num x \<Rightarrow> [x] | I64 i \<Rightarrow> [fl (of_int i)] | _ \<Rightarrow> []) cs)"

definition median_sorted :: "(real \<Rightarrow> real) \<Rightarrow> real list \<Rightarrow> real option" where
  "median_sorted fl s =
     (let n = length s
      in if n = 0 then None
         else if odd n then Some (s ! (n div 2))
         else Some (fl (fl (s ! (n div 2 - 1) + s ! (n div 2)) / 2)))"

definition median :: "(real \<Rightarrow> real) \<Rightarrow> cell list \<Rightarrow> error + real option" where
  "median fl cs =
     (if list_ex (\<lambda>c. case c of Str _ \<Rightarrow> True | _ \<Rightarrow> False) cs then Inl TypeError
      else Inr (median_sorted fl (sort (nums_of fl cs))))"

text \<open>
  \<open>df['yield'] * 1000\<close>, cell by cell: the int64 product on an int64 column
  (\<open>int_col\<close>), the float64 product otherwise (a string would be repeated).
\<close>

definition times_1000 :: "(real \<Rightarrow> real) \<Rightarrow> bool \<Rightarrow> cell \<Rightarrow> cell" where
  "times_1000 fl int_col c =
     (case c of
        Num x \<Rightarrow> Num (fl (x * 1000))
      | I64 i \<Rightarrow> if int_col then I64 (wrap64 (i * 1000)) else Num (fl (fl (of_int i) * 1000))
      | NaN \<Rightarrow> NaN
      | Str s \<Rightarrow> Str (concat (replicate 1000 s)))"

definition times_1000_col :: "(real \<Rightarrow> real) \<Rightarrow> cell list \<Rightarrow> cell list" where
  "times_1000_col fl cs = map (times_1000 fl (is_int_col cs)) cs"

text \<open>
  Step 6.  Where two columns bear the name \<open>yield\<close>, the median is a column of two
  medians and testing its comparison with \<open>100\<close> raises \<open>ValueError\<close>.
\<close>

definition convert_yield :: "(real \<Rightarrow> real) \<Rightarrow> dataframe \<Rightarrow> error + dataframe" where
  "convert_yield fl df =
     (if has_col df ''yield'' then
        (if dup df ''yield'' then Inl ValueError
         else case median fl (get_col df ''yield'') of
           Inl e \<Rightarrow> Inl e
         | Inr None \<Rightarrow> Inr df
         | Inr (Some m) \<Rightarrow>
             if m < 100 then Inr (set_col df ''yield'' (times_1000_col fl (get_col df ''yield'')))
             else Inr df)
      else Inr df)"

text \<open>Steps 6 and 7 of \<open>preprocess_data\<close>, in the order of the source.\<close>

definition convert_and_filter :: "(real \<Rightarrow> real) \<Rightarrow> dataframe \<Rightarrow> error + dataframe" where
  "convert_and_filter fl df =
     (case convert_yield fl df of
        Inl e \<Rightarrow> Inl e
      | Inr df1 \<Rightarrow> detect_agronomic_outliers df1 ''crop'' ''yield'')"

subsection \<open>The filter's retention rule, stated on cells\<close>

text \<open>
  A record is retained when its yield is a number, strictly positive, and within the
  bounds found under the crop name lower-cased and stripped of surrounding white space,
  with \<open>(50, 100000)\<close> for every other crop value.
\<close>

definition retained :: "cell \<Rightarrow> cell \<Rightarrow> bool" where
  "retained crop y =
     (let (lo, hi) =
            (case crop of
               Str s \<Rightarrow> (case map_of CROP_YIELD_LIMITS (py_strip (py_lower s)) of
                            Some l \<Rightarrow> l | None \<Rightarrow> (50, 100000))
             | _ \<Rightarrow> (50, 100000))
      in case y of
           Num v \<Rightarrow> 0 < v \<and> lo \<le> v \<and> v \<le> hi
         | I64 i \<Rightarrow> 0 < i \<and> lo \<le> of_int i \<and> of_int i \<le> hi
         | _ \<Rightarrow> False)"

text \<open>
  The rule as the specification words it: the bounds are found under the lower-cased
  crop name as it stands.
\<close>

definition spec_bounds :: "string \<Rightarrow> real \<times> real" where
  "spec_bounds crop =
     (case map_of CROP_YIELD_LIMITS (py_lower crop) of Some l \<Rightarrow> l | None \<Rightarrow> (50, 100000))"

definition spec_retains :: "string \<Rightarrow> real option \<Rightarrow> bool" where
  "spec_retains crop y =
     (case y of
        None \<Rightarrow> False
      | Some v \<Rightarrow> 0 < v \<and> fst (spec_bounds crop) \<le> v \<and> v \<le> snd (spec_bounds crop))"

text \<open>A column without string cells.\<close>

definition numeric_col :: "dataframe \<Rightarrow> string \<Rightarrow> bool" where
  "numeric_col df c \<longleftrightarrow> list_all (\<lambda>r. case r c of Str _ \<Rightarrow> False | _ \<Rightarrow> True) (rows df)"


subsection \<open>The random generator\<close>

text \<open>
  The backfill draws from numpy's global generator.  The generator is library code: it
  is a parameter here, given by its seeding function and its two single draws, a double
  of the unit interval and an integer below a bound.  The state \<open>'g\<close> of the generator
  is threaded through every draw; an array of \<open>n\<close> values is \<open>n\<close> successive draws.
\<close>

record 'g numpy_random =
  np_seed :: "nat \<Rightarrow> 'g"
  random_sample :: "'g \<Rightarrow> real \<times> 'g"
  randint :: "nat \<Rightarrow> 'g \<Rightarrow> nat \<times> 'g"

fun draws :: "('g \<Rightarrow> 'a \<times> 'g) \<Rightarrow> 'g \<Rightarrow> nat \<Rightarrow> 'a list \<times> 'g" where
  "draws f g 0 = ([], g)"
| "draws f g (Suc n) =
     (case f g of (x, g1) \<Rightarrow> (case draws f g1 n of (xs, g2) \<Rightarrow> (x # xs, g2)))"

text \<open>\<open>np.random.uniform(lo, hi, size=n)\<close> and \<open>np.random.choice(opts, size=n)\<close>\<close>

definition uniform :: "'g numpy_random \<Rightarrow> 'g \<Rightarrow> real \<Rightarrow> real \<Rightarrow> nat \<Rightarrow> real list \<times> 'g" where
  "uniform R g lo hi n =
     (case draws (random_sample R) g n of (us, g') \<Rightarrow> (map (\<lambda>u. lo + (hi - lo) * u) us, g'))"

definition choice :: "'g numpy_random \<Rightarrow> 'g \<Rightarrow> 'a list \<Rightarrow> nat \<Rightarrow> 'a list \<times> 'g" where
  "choice R g opts n =
     (case draws (randint R (length opts)) g n of (is, g') \<Rightarrow> (map (\<lambda>i. opts ! i) is, g'))"

text \<open>A generator whose doubles lie in the unit interval, as numpy's do.\<close>

definition unit_gen :: "'g numpy_random \<Rightarrow> bool" where
  "unit_gen R \<longleftrightarrow> (\<forall>g. 0 \<le> fst (random_sample R g) \<and> fst (random_sample R g) < 1)"

text \<open>
  A small generator for examples: the state is a counter, seeding sets it, and every
  draw reads it and steps it.
\<close>

definition counter_gen :: "nat numpy_random" where
  "counter_gen =
     \<lparr>np_seed = (\<lambda>s. s),
      random_sample = (\<lambda>g. (real (g mod 10) / 10, g + 1)),
      randint = (\<lambda>b g. (g mod b, g + 1))\<rparr>"

subsection \<open>Backfill of missing weather, soil and satellite columns (step 7b)\<close>

text \<open>\<open>df['temperature'] + noise\<close>: adding a number to a string raises.\<close>

fun add_noise :: "cell list \<Rightarrow> real list \<Rightarrow> error + cell list" where
  "add_noise (c # cs) (x # xs) =
     (case c of
        Str _ \<Rightarrow> Inl TypeError
      | _ \<Rightarrow>
          (case add_noise cs xs of
             Inl e \<Rightarrow> Inl e
           | Inr vs \<Rightarrow> Inr ((case c of
                           Num a \<Rightarrow> Num (a + x)
                         | I64 a \<Rightarrow> Num (of_int a + x)
                         | _ \<Rightarrow> NaN) # vs)))"
| "add_noise _ _ = Inr []"

definition backfill_weather :: "'g numpy_random \<Rightarrow> dataframe \<times> 'g \<Rightarrow> dataframe \<times> 'g" where
  "backfill_weather R s =
     (case s of (df, g) \<Rightarrow>
        if \<not> has_col df ''temperature'' then
          (case uniform R g 25 35 (len df) of (t, g1) \<Rightarrow>
             let df1 = set_col df ''temperature'' (map Num t)
             in case uniform R g1 40 80 (len df1) of (h, g2) \<Rightarrow>
                  (set_col df1 ''humidity'' (map Num h), g2))
        else (df, g))"

definition soil_types :: "string list" where
  "soil_types = [''clay'', ''sandy'', ''loamy'', ''black'', ''red'', ''alluvial'']"

definition backfill_soil :: "'g numpy_random \<Rightarrow> dataframe \<times> 'g \<Rightarrow> dataframe \<times> 'g" where
  "backfill_soil R s =
     (case s of (df, g) \<Rightarrow>
        if \<not> has_col df ''soil_type'' then
          (case choice R g soil_types (len df) of (st, g1) \<Rightarrow>
             (set_col df ''soil_type'' (map Str st), g1))
        else (df, g))"

definition backfill_satellite ::
  "'g numpy_random \<Rightarrow> dataframe \<times> 'g \<Rightarrow> error + dataframe \<times> 'g" where
  "backfill_satellite R s =
     (case s of (df, g) \<Rightarrow>
        if \<not> has_col df ''ndvi'' then
          (let g0 = np_seed R 42
           in case uniform R g0 0.3 0.8 (len df) of (nd, g1) \<Rightarrow>
             let df1 = set_col df ''ndvi'' (map Num nd)
             in case uniform R g1 15 45 (len df1) of (sm, g2) \<Rightarrow>
               let df2 = set_col df1 ''soil_moisture'' (map Num sm)
               in if has_col df2 ''temperature'' then
                    (case uniform R g2 (- 2) 5 (len df2) of (nz, g3) \<Rightarrow>
                       (case add_noise (get_col df2 ''temperature'') nz of
                          Inl e \<Rightarrow> Inl e
                        | Inr l \<Rightarrow> Inr (set_col df2 ''lst'' l, g3)))
                  else
                    (case uniform R g2 20 35 (len df2) of (l, g3) \<Rightarrow>
                       Inr (set_col df2 ''lst'' (map Num l), g3)))
        else Inr (df, g))"

text \<open>The three blocks in the order of the source, from generator state \<open>g\<close>.\<close>

definition backfill :: "'g numpy_random \<Rightarrow> 'g \<Rightarrow> dataframe \<Rightarrow> error + dataframe \<times> 'g" where
  "backfill R g df = backfill_satellite R (backfill_soil R (backfill_weather R (df, g)))"

subsection \<open>The values the backfill draws\<close>

text \<open>
  The arrays drawn by the weather block from the generator state \<open>g\<close> at which the
  backfill starts: \<open>uniform(25, 35, n)\<close>, then \<open>uniform(40, 80, n)\<close>.
\<close>

definition weather_temp :: "'g numpy_random \<Rightarrow> 'g \<Rightarrow> nat \<Rightarrow> real list" where
  "weather_temp R g n = fst (uniform R g 25 35 n)"

definition weather_hum :: "'g numpy_random \<Rightarrow> 'g \<Rightarrow> nat \<Rightarrow> real list" where
  "weather_hum R g n = fst (uniform R (snd (uniform R g 25 35 n)) 40 80 n)"

text \<open>The table when the satellite block is reached, and the soil types drawn for it.\<close>

definition pre_sat :: "'g numpy_random \<Rightarrow> 'g \<Rightarrow> dataframe \<Rightarrow> dataframe" where
  "pre_sat R g df = fst (backfill_soil R (backfill_weather R (df, g)))"

definition soil_draw :: "'g numpy_random \<Rightarrow> 'g \<Rightarrow> dataframe \<Rightarrow> string list" where
  "soil_draw R g df = fst (choice R (snd (backfill_weather R (df, g))) soil_types (len df))"

text \<open>
  The three arrays drawn by the satellite block after \<open>np.random.seed(42)\<close>:
  \<open>uniform(0.3, 0.8, n)\<close>, \<open>uniform(15, 45, n)\<close> and \<open>uniform(-2, 5, n)\<close>.
\<close>

definition sat_ndvi :: "'g numpy_random \<Rightarrow> nat \<Rightarrow> real list" where
  "sat_ndvi R n = fst (uniform R (np_seed R 42) 0.3 0.8 n)"

definition sat_moisture :: "'g numpy_random \<Rightarrow> nat \<Rightarrow> real list" where
  "sat_moisture R n = fst (uniform R (snd (uniform R (np_seed R 42) 0.3 0.8 n)) 15 45 n)"

definition satellite_noise :: "'g numpy_random \<Rightarrow> nat \<Rightarrow> real list" where
  "satellite_noise R n =
     fst (uniform R (snd (uniform R (snd (uniform R (np_seed R 42) 0.3 0.8 n)) 15 45 n)) (- 2) 5 n)"

text \<open>
  The table on which the satellite block tests for the temperature column: the vegetation
  index and the soil moisture have been assigned.
\<close>

definition sat_frame :: "'g numpy_random \<Rightarrow> dataframe \<Rightarrow> dataframe" where
  "sat_frame R df =
     set_col (set_col df ''ndvi'' (map Num (sat_ndvi R (len df))))
       ''soil_moisture'' (map Num (sat_moisture R (len df)))"

text \<open>A generator whose bounded integers lie below the bound, as numpy's do.\<close>

definition bounded_gen :: "'g numpy_random \<Rightarrow> bool" where
  "bounded_gen R \<longleftrightarrow> (\<forall>b g. 0 < b \<longrightarrow> fst (randint R b g) < b)"

subsection \<open>Group k-fold (scikit-learn's \<open>GroupKFold\<close>)\<close>

text \<open>
  \<open>spatial_cv\<close> calls scikit-learn's \<open>GroupKFold\<close>, which is library code.  It is
  written out here as the library has it: the constructor refuses fewer than two splits;
  \<open>split\<close> refuses more splits than samples or than groups, gives the groups in
  descending order of size each to the fold that is lightest so far, and yields for every
  fold the rows of its groups as test indices and all other rows as training indices.
  Groups of one size are taken in the order of the stable sort; numpy leaves that order
  to its sorting routine, and nothing below depends on it.
\<close>

definition GroupKFold :: "int \<Rightarrow> error + nat" where
  "GroupKFold n_splits = (if n_splits \<le> 1 then Inl ValueError else Inr (nat n_splits))"

text \<open>\<open>np.argmin\<close>: the first index of a least element.\<close>

fun argmin :: "nat list \<Rightarrow> nat" where
  "argmin [] = 0"
| "argmin [x] = 0"
| "argmin (x # y # ys) = (let j = argmin (y # ys) in if x \<le> (y # ys) ! j then 0 else Suc j)"

fun distribute :: "('d \<Rightarrow> nat) \<Rightarrow> 'd list \<Rightarrow> nat list \<Rightarrow> ('d \<times> nat) list" where
  "distribute weight [] per_fold = []"
| "distribute weight (g # gs) per_fold =
     (let lightest_fold = argmin per_fold
      in (g, lightest_fold) #
         distribute weight gs (per_fold[lightest_fold := per_fold ! lightest_fold + weight g]))"

definition group_to_fold :: "nat \<Rightarrow> ('d::linorder) list \<Rightarrow> ('d \<times> nat) list" where
  "group_to_fold k groups =
     (let unique_groups = sort (remdups groups);
          weight = (\<lambda>g. length (filter (\<lambda>x. x = g) groups));
          by_size = rev (sort_key weight unique_groups)
      in distribute weight by_size (replicate k 0))"

definition fold_of :: "nat \<Rightarrow> ('d::linorder) list \<Rightarrow> 'd \<Rightarrow> nat" where
  "fold_of k groups g = (case map_of (group_to_fold k groups) g of Some f \<Rightarrow> f | None \<Rightarrow> 0)"

text \<open>\<open>gkf.split(X, y, groups)\<close>: the pairs \<open>(train_idx, test_idx)\<close>, fold by fold.\<close>

definition gkf_split ::
  "nat \<Rightarrow> 'x list \<Rightarrow> ('d::linorder) list \<Rightarrow> error + (nat list \<times> nat list) list" where
  "gkf_split k X groups =
     (if length X \<noteq> length groups then Inl ValueError
      else if k > length X then Inl ValueError
      else if k > length (remdups groups) then Inl ValueError
      else Inr (map (\<lambda>f. (filter (\<lambda>i. fold_of k groups (groups ! i) \<noteq> f) [0 ..< length groups],
                           filter (\<lambda>i. fold_of k groups (groups ! i) = f) [0 ..< length groups]))
                    [0 ..< k]))"

subsection \<open>Spatial cross-validation\<close>

text \<open>\<open>X.iloc[idx]\<close>\<close>

definition iloc :: "'a list \<Rightarrow> nat list \<Rightarrow> 'a list" where
  "iloc xs idx = map (\<lambda>i. xs ! i) idx"

text \<open>
  The folds of \<open>spatial_cv\<close> for the district column \<open>groups\<close>.  The splitter is built
  before the \<open>try\<close>: its \<open>ValueError\<close> leaves the function.
\<close>

definition spatial_folds ::
  "('d::linorder) list \<Rightarrow> 'x list \<Rightarrow> int \<Rightarrow> error + (error + (nat list \<times> nat list) list)" where
  "spatial_folds groups X n_splits =
     (case GroupKFold (min n_splits (int (length (remdups groups)))) of
        Inl e \<Rightarrow> Inl e
      | Inr k \<Rightarrow> Inr (gkf_split k X groups))"

text \<open>
  \<open>spatial_cv(df, X, y, model, n_splits)\<close> reads of \<open>df\<close> only the column
  \<open>district\<close> (\<open>None\<close> when absent).  An exception of the split is caught inside the
  function, which then returns the lists as they are; the outer \<open>Inl\<close> is an exception
  that leaves the function.
\<close>

definition spatial_cv ::
  "('x list \<Rightarrow> 'y list \<Rightarrow> 'x list \<Rightarrow> 'y list \<Rightarrow> real \<times> real \<times> real) \<Rightarrow>
   ('d::linorder) list option \<Rightarrow> 'x list \<Rightarrow> 'y list \<Rightarrow> int \<Rightarrow> error + cv_results" where
  "spatial_cv ev district X y n_splits =
     (case district of
        None \<Rightarrow> Inr Map.empty
      | Some groups \<Rightarrow>
          (case spatial_folds groups X n_splits of
             Inl e \<Rightarrow> Inl e
           | Inr (Inl e) \<Rightarrow> Inr (results_of [])
           | Inr (Inr folds) \<Rightarrow>
               Inr (results_of
                     (map (\<lambda>(train_idx, test_idx).
                             ev (iloc X train_idx) (iloc y train_idx)
                                (iloc X test_idx) (iloc y test_idx))
                          folds))))"

subsection \<open>The cross-validation entries of the metrics record\<close>

text \<open>
  \<open>np.mean\<close> of a list of numbers; of the empty list it is \<open>nan\<close>, which is \<open>None\<close>
  here.
\<close>

definition np_mean :: "real list \<Rightarrow> real option" where
  "np_mean xs = (if xs = [] then None else Some (sum_list xs / real (length xs)))"

text \<open>\<open>results.get('r2', [r2])\<close>\<close>

definition get_r2 :: "cv_results \<Rightarrow> real \<Rightarrow> real list" where
  "get_r2 results r2 = (case results ''r2'' of Some l \<Rightarrow> l | None \<Rightarrow> [r2])"

record metrics =
  r2_score :: real
  temporal_cv_r2_mean :: "real option"
  spatial_cv_r2_mean :: "real option"

text \<open>
  The part of \<open>train_production_model\<close> from the two cross-validations to the metrics
  record.  \<open>r2\<close> is the holdout score of the final model, which library code computes.
  The run ends with the exception that leaves \<open>spatial_cv\<close>.
\<close>

definition train_production_model ::
  "('x list \<Rightarrow> 'y list \<Rightarrow> 'x list \<Rightarrow> 'y list \<Rightarrow> real \<times> real \<times> real) \<Rightarrow> real \<Rightarrow>
   int list option \<Rightarrow> ('d::linorder) list option \<Rightarrow> 'x list \<Rightarrow> 'y list \<Rightarrow> error + metrics" where
  "train_production_model ev r2 year district X y =
     (let temporal_results = temporal_cv ev year X y 5
      in case spatial_cv ev district X y 5 of
           Inl e \<Rightarrow> Inl e
         | Inr spatial_results \<Rightarrow>
             Inr \<lparr>r2_score = r2,
                  temporal_cv_r2_mean = np_mean (get_r2 temporal_results r2),
                  spatial_cv_r2_mean = np_mean (get_r2 spatial_results r2)\<rparr>)"

subsection \<open>Group-disjoint folds\<close>

text \<open>
  A fold is group-disjoint when no district of a training row is the district of a test
  row; its two index lists split the rows.
\<close>

definition fold_ok :: "'d list \<Rightarrow> nat list \<times> nat list \<Rightarrow> bool" where
  "fold_ok groups p \<longleftrightarrow>
     set (iloc groups (fst p)) \<inter> set (iloc groups (snd p)) = {} \<and>
     set (fst p) \<union> set (snd p) = {0 ..< length groups} \<and>
     set (fst p) \<inter> set (snd p) = {}"

subsection \<open>Schema normalization (steps 1 to 5)\<close>

text \<open>\<open>df.columns.str.strip().str.lower().str.replace(' ', '_')\<close>\<close>

definition normalize_column :: "string \<Rightarrow> string" where
  "normalize_column c = map (\<lambda>x. if x = CHR '' '' then CHR ''_'' else x) (py_lower (py_strip c))"

text \<open>
  Assigning \<open>df.columns\<close> renames the columns in their positions; a row then gives under
  a new name the cell of the first column that bears it.  Two old names may become one
  new name; the statements that read a column by such a name raise, each in its way.
\<close>

definition rename_columns :: "(string \<Rightarrow> string) \<Rightarrow> dataframe \<Rightarrow> dataframe" where
  "rename_columns f df =
     \<lparr>columns = map f (columns df),
      rows = map (\<lambda>r c'. case find (\<lambda>c. f c = c') (columns df) of
                             Some c \<Rightarrow> r c
                           | None \<Rightarrow> NaN)
                 (rows df)\<rparr>"

text \<open>
  \<open>if old in df.columns and new not in df.columns: df[new] = df[old]\<close>.  Where two
  columns bear the old name, \<open>df[old]\<close> is a table of two columns, which cannot be
  assigned to one column: \<open>ValueError\<close>.
\<close>

definition copy_column :: "string \<Rightarrow> string \<Rightarrow> dataframe \<Rightarrow> error + dataframe" where
  "copy_column old new df =
     (if has_col df old \<and> \<not> has_col df new then
        (if dup df old then Inl ValueError else Inr (set_col df new (get_col df old)))
      else Inr df)"

text \<open>\<open>str\<close> of an integer: its decimal digits.\<close>

fun nat_str :: "nat \<Rightarrow> string" where
  "nat_str n = (if n < 10 then [''0123456789'' ! n]
                else nat_str (n div 10) @ [''0123456789'' ! (n mod 10)])"

definition int_str :: "int \<Rightarrow> string" where
  "int_str i = (if i < 0 then CHR ''-'' # nat_str (nat (- i)) else nat_str (nat i))"

text \<open>
  \<open>str\<close> of a cell; the text of a float is Python's, given by \<open>num_str\<close>.
\<close>

definition cell_str :: "(real \<Rightarrow> string) \<Rightarrow> cell \<Rightarrow> string" where
  "cell_str num_str c =
     (case c of Str s \<Rightarrow> s | Num x \<Rightarrow> num_str x | I64 i \<Rightarrow> int_str i | NaN \<Rightarrow> ''nan'')"

text \<open>
  \<open>df[col].fillna('unknown').astype(str).str.lower().str.strip()\<close>.  Where two columns
  bear the name, \<open>df[col]\<close> is a table, which has no \<open>str\<close>: \<open>AttributeError\<close>.
\<close>

definition clean_cell :: "(real \<Rightarrow> string) \<Rightarrow> cell \<Rightarrow> cell" where
  "clean_cell num_str c =
     (case c of
        NaN \<Rightarrow> Str ''unknown''
      | _ \<Rightarrow> Str (py_strip (py_lower (cell_str num_str c))))"

definition clean_column :: "(real \<Rightarrow> string) \<Rightarrow> string \<Rightarrow> dataframe \<Rightarrow> error + dataframe" where
  "clean_column num_str col df =
     (if has_col df col then
        (if dup df col then Inl AttributeError
         else Inr (set_col df col (map (clean_cell num_str) (get_col df col))))
      else Inr df)"

definition SEASON_MAPPING :: "(string \<times> string) list" where
  "SEASON_MAPPING =
     [(''winter'', ''rabi''),
      (''summer'', ''zaid''),
      (''autumn'', ''kharif''),
      (''whole year'', ''annual''),
      (''monsoon'', ''kharif'')]"

definition normalize_season :: "(real \<Rightarrow> string) \<Rightarrow> cell \<Rightarrow> cell" where
  "normalize_season num_str season =
     (case season of
        NaN \<Rightarrow> Str ''kharif''
      | _ \<Rightarrow>
          (let season_lower = py_strip (py_lower (cell_str num_str season))
           in case map_of SEASON_MAPPING season_lower of
                Some v \<Rightarrow> Str v
              | None \<Rightarrow> Str season_lower))"

definition REGION_MAPPING :: "(string \<times> string list) list" where
  "REGION_MAPPING =
     [(''north-india'', [''JAMMU'', ''KASHMIR'', ''HIMACHAL'', ''PUNJAB'', ''HARYANA'',
                         ''UTTARAKHAND'', ''UTTAR PRADESH'', ''DELHI'']),
      (''south-india'', [''ANDHRA'', ''TELANGANA'', ''KARNATAKA'', ''TAMIL'', ''KERALA'',
                         ''PUDUCHERRY'']),
      (''east-india'', [''BIHAR'', ''JHARKHAND'', ''WEST BENGAL'', ''ODISHA'', ''ASSAM'',
                        ''SIKKIM'', ''ARUNACHAL'', ''NAGALAND'', ''MANIPUR'', ''MIZORAM'',
                        ''TRIPURA'', ''MEGHALAYA'']),
      (''west-india'', [''RAJASTHAN'', ''GUJARAT'', ''MAHARASHTRA'', ''GOA'']),
      (''central-india'', [''MADHYA'', ''CHHATTISGARH''])]"

text \<open>
  \<open>str.upper\<close> on the code points 0 to 255: a small letter becomes its capital, the
  sharp s (223) becomes \<open>SS\<close>.  The capitals of the micro sign (181) and of the y with
  diaeresis (255) have code points above 255; these two characters are left as they
  are.  The capital text is only searched for the names of \<open>REGION_MAPPING\<close>, which
  are written with the letters A to Z and the space, so that the search gives the same
  answer for either form of these two characters.
\<close>

definition upper_char :: "char \<Rightarrow> string" where
  "upper_char c =
     (if c = CHR 0xDF then ''SS''
      else case map_of (zip lower_letters upper_letters) c of
             Some d \<Rightarrow> [d]
           | None \<Rightarrow> [c])"

definition py_upper :: "string \<Rightarrow> string" where
  "py_upper s = concat (map upper_char s)"

text \<open>\<open>s in t\<close> on strings: \<open>s\<close> occurs in \<open>t\<close>.\<close>

fun starts_with :: "string \<Rightarrow> string \<Rightarrow> bool" where
  "starts_with t [] = True"
| "starts_with [] (x # s) = False"
| "starts_with (y # t) (x # s) = (x = y \<and> starts_with t s)"

fun occurs_in :: "string \<Rightarrow> string \<Rightarrow> bool" where
  "occurs_in s [] = (s = [])"
| "occurs_in s (y # t) = (starts_with (y # t) s \<or> occurs_in s t)"

definition map_state_to_region :: "(real \<Rightarrow> string) \<Rightarrow> cell \<Rightarrow> cell" where
  "map_state_to_region num_str state =
     (case state of
        NaN \<Rightarrow> Str ''central-india''
      | _ \<Rightarrow>
          (let state_upper = py_upper (cell_str num_str state)
           in case find (\<lambda>(region, states). list_ex (\<lambda>s. occurs_in s state_upper) states)
                        REGION_MAPPING of
                Some (region, states) \<Rightarrow> Str region
              | None \<Rightarrow> Str ''central-india''))"

definition normalize_season_column :: "(real \<Rightarrow> string) \<Rightarrow> dataframe \<Rightarrow> dataframe" where
  "normalize_season_column num_str df =
     (if has_col df ''season''
      then set_col df ''season'' (map (normalize_season num_str) (get_col df ''season''))
      else df)"

definition add_region :: "(real \<Rightarrow> string) \<Rightarrow> dataframe \<Rightarrow> dataframe" where
  "add_region num_str df =
     (if \<not> has_col df ''region'' \<and> has_col df ''state''
      then set_col df ''region'' (map (map_state_to_region num_str) (get_col df ''state''))
      else df)"

subsection \<open>Tables as objects: \<open>preprocess_data\<close> on a store\<close>

text \<open>
  To say which table object a statement writes, tables live in a store: a list of
  tables, an object being its index.  A run carries the store and the state of the
  global random generator.  A statement of \<open>preprocess_data\<close> is a step from the store
  and the object the local variable \<open>df\<close> is bound to; it yields the new store and
  either the object \<open>df\<close> is bound to afterwards or the exception raised.
\<close>

type_synonym heap = "dataframe list"

type_synonym 'g step = "heap \<times> 'g \<Rightarrow> nat \<Rightarrow> (heap \<times> 'g) \<times> (error + nat)"

text \<open>
  A statement that assigns into the object bound to \<open>df\<close> (\<open>df[c] = ...\<close>,
  \<open>df.columns = ...\<close>): the object is replaced in its place.  When the right-hand side
  raises, nothing is assigned.
\<close>

definition in_place :: "(dataframe \<Rightarrow> error + dataframe) \<Rightarrow> 'g step" where
  "in_place t s a =
     (case s of (h, g) \<Rightarrow>
        (case t (h ! a) of
           Inl e \<Rightarrow> (s, Inl e)
         | Inr d \<Rightarrow> ((h[a := d], g), Inr a)))"

text \<open>The same for a statement that draws from the generator.\<close>

definition in_place_rng :: "(dataframe \<times> 'g \<Rightarrow> error + dataframe \<times> 'g) \<Rightarrow> 'g step" where
  "in_place_rng t s a =
     (case s of (h, g) \<Rightarrow>
        (case t (h ! a, g) of
           Inl e \<Rightarrow> (s, Inl e)
         | Inr (d, g') \<Rightarrow> ((h[a := d], g'), Inr a)))"

text \<open>
  A statement that binds \<open>df\<close> to a table the right-hand side has made
  (\<open>df = df.copy()\<close>, \<open>df = detect_agronomic_outliers(df)\<close>, \<open>df = df.sort_values(...)\<close>):
  a new object is added to the store.
\<close>

definition new_object :: "(dataframe \<Rightarrow> error + dataframe) \<Rightarrow> 'g step" where
  "new_object t s a =
     (case s of (h, g) \<Rightarrow>
        (case t (h ! a) of
           Inl e \<Rightarrow> (s, Inl e)
         | Inr d \<Rightarrow> ((h @ [d], g), Inr (length h))))"

text \<open>Statements in sequence; an exception ends the run.\<close>

fun run_steps :: "'g step list \<Rightarrow> heap \<times> 'g \<Rightarrow> nat \<Rightarrow> (heap \<times> 'g) \<times> (error + nat)" where
  "run_steps [] s a = (s, Inr a)"
| "run_steps (f # fs) s a =
     (case f s a of
        (s', Inl e) \<Rightarrow> (s', Inl e)
      | (s', Inr a') \<Rightarrow> run_steps fs s' a')"

text \<open>
  The rounding to float64, the text of a float, and the column values of steps 8 to 10,
  which pandas and scikit-learn compute, are parameters.  Each of the computations takes
  tables or columns and gives columns, and none writes to its argument.

  A statement that reads a column by a name that two columns bear gets a table in place
  of the column and raises: \<open>ValueError\<close> where that table is assigned to one column,
  sorted by, encoded or scaled, \<open>TypeError\<close> where it is handed to \<open>pd.to_numeric\<close>.
\<close>

record library =
  round_float :: "real \<Rightarrow> real"
  num_str :: "real \<Rightarrow> string"
  to_numeric :: "cell list \<Rightarrow> cell list"
  per_area :: "cell list \<Rightarrow> cell list \<Rightarrow> error + cell list"
  rainfall_cut :: "cell list \<Rightarrow> cell list"
  sort_values :: "dataframe \<Rightarrow> dataframe"
  shift_yield :: "dataframe \<Rightarrow> cell list"
  yield_minus :: "cell list \<Rightarrow> cell list \<Rightarrow> error + cell list"
  label_encode :: "cell list \<Rightarrow> cell list"
  standard_scale :: "cell list list \<Rightarrow> error + cell list list"

text \<open>
  The satellite block of step 7b as a statement of the run: where the vegetation index
  is absent and two columns bear the name \<open>temperature\<close>, adding the noise to the table
  of the two raises \<open>ValueError\<close>.
\<close>

definition satellite_step :: "'g numpy_random \<Rightarrow> dataframe \<times> 'g \<Rightarrow> error + dataframe \<times> 'g" where
  "satellite_step R s =
     (if \<not> has_col (fst s) ''ndvi'' \<and> dup (fst s) ''temperature'' then Inl ValueError
      else backfill_satellite R s)"

text \<open>Step 8a: \<open>df['production'] / (df['area_hectares'] + 1)\<close>\<close>

definition productivity_index :: "library \<Rightarrow> dataframe \<Rightarrow> error + dataframe" where
  "productivity_index L df =
     (if has_col df ''production'' \<and> has_col df ''area_hectares'' then
        (if dup df ''production'' \<or> dup df ''area_hectares'' then Inl ValueError
         else case per_area L (get_col df ''production'') (get_col df ''area_hectares'') of
           Inl e \<Rightarrow> Inl e
         | Inr v \<Rightarrow> Inr (set_col df ''productivity_index'' v))
      else Inr df)"

text \<open>
  Steps 8b and 8c: \<open>df[c] = pd.to_numeric(df[c], errors='coerce').fillna(0)\<close>, then the
  intensity \<open>df[c] / (df['area_hectares'] + 1)\<close>, which reads the area column whether
  or not the table has it, and the rainfall category.
\<close>

definition to_numeric_column :: "library \<Rightarrow> string \<Rightarrow> dataframe \<Rightarrow> error + dataframe" where
  "to_numeric_column L c df =
     (if has_col df c then
        (if dup df c then Inl TypeError
         else Inr (set_col df c (to_numeric L (get_col df c))))
      else Inr df)"

definition intensity :: "library \<Rightarrow> string \<Rightarrow> dataframe \<Rightarrow> error + dataframe" where
  "intensity L c df =
     (if has_col df c then
        (if \<not> has_col df ''area_hectares'' then Inl KeyError
         else if dup df ''area_hectares'' then Inl ValueError
         else case per_area L (get_col df c) (get_col df ''area_hectares'') of
                Inl e \<Rightarrow> Inl e
              | Inr v \<Rightarrow> Inr (set_col df (c @ ''_intensity'') v))
      else Inr df)"

definition rainfall_category :: "library \<Rightarrow> dataframe \<Rightarrow> error + dataframe" where
  "rainfall_category L df =
     (if has_col df ''rainfall''
      then Inr (set_col df ''rainfall_category'' (rainfall_cut L (get_col df ''rainfall'')))
      else Inr df)"

text \<open>
  Step 8d: with a year column \<open>df\<close> is bound to the sorted table, a new object, and the
  two lag columns are assigned into it.  Sorting reads the state and crop columns.
\<close>

definition sort_step :: "library \<Rightarrow> 'g step" where
  "sort_step L s a =
     (if has_col (fst s ! a) ''year'' then
        new_object (\<lambda>df. if \<not> (has_col df ''state'' \<and> has_col df ''crop'') then Inl KeyError
                          else if dup df ''year'' then Inl ValueError
                          else Inr (sort_values L df)) s a
      else (s, Inr a))"

definition prev_year_yield :: "library \<Rightarrow> dataframe \<Rightarrow> error + dataframe" where
  "prev_year_yield L df =
     (if has_col df ''year'' then Inr (set_col df ''prev_year_yield'' (shift_yield L df))
      else Inr df)"

definition yield_change :: "library \<Rightarrow> dataframe \<Rightarrow> error + dataframe" where
  "yield_change L df =
     (if has_col df ''year'' then
        (case yield_minus L (get_col df ''yield'') (get_col df ''prev_year_yield'') of
           Inl e \<Rightarrow> Inl e
         | Inr v \<Rightarrow> Inr (set_col df ''yield_change'' v))
      else Inr df)"

text \<open>Step 9: \<open>df[col + '_encoded'] = le.fit_transform(df[col].astype(str))\<close>\<close>

definition encode :: "library \<Rightarrow> string \<Rightarrow> dataframe \<Rightarrow> error + dataframe" where
  "encode L c df =
     (if has_col df c then
        (if dup df c then Inl ValueError
         else Inr (set_col df (c @ ''_encoded'') (label_encode L (get_col df c))))
      else Inr df)"

text \<open>
  Step 10: the numeric columns the table has are filled with \<open>0\<close> where missing, then
  scaled together into the \<open>_scaled\<close> columns.  Where two columns bear one of the
  names, the scaled table has more columns than there are \<open>_scaled\<close> names.
\<close>

definition numerical_cols :: "string list" where
  "numerical_cols = [''rainfall'', ''ndvi'', ''soil_moisture'', ''lst'', ''temperature'', ''humidity'']"

definition scale_cols :: "dataframe \<Rightarrow> string list" where
  "scale_cols df = filter (has_col df) numerical_cols"

definition fillna0 :: "cell \<Rightarrow> cell" where
  "fillna0 c = (case c of NaN \<Rightarrow> Num 0 | _ \<Rightarrow> c)"

definition fill_numeric :: "dataframe \<Rightarrow> error + dataframe" where
  "fill_numeric df =
     Inr (fold (\<lambda>c d. set_col d c (map fillna0 (get_col d c))) (scale_cols df) df)"

definition scale :: "library \<Rightarrow> dataframe \<Rightarrow> error + dataframe" where
  "scale L df =
     (if scale_cols df = [] then Inr df
      else if list_ex (dup df) (scale_cols df) then Inl ValueError
      else case standard_scale L (map (get_col df) (scale_cols df)) of
             Inl e \<Rightarrow> Inl e
           | Inr vs \<Rightarrow>
               Inr (fold (\<lambda>(c, v) d. set_col d (c @ ''_scaled'') v) (zip (scale_cols df) vs) df))"

text \<open>The closing summary reads the state, crop, district and yield columns.\<close>

definition final_stats :: "dataframe \<Rightarrow> error + dataframe" where
  "final_stats df =
     (if has_col df ''state'' \<and> has_col df ''crop'' \<and> has_col df ''district'' \<and> has_col df ''yield''
      then Inr df else Inl KeyError)"

text \<open>
  \<open>preprocess_data(df)\<close>, statement by statement, from the store \<open>h\<close>, the generator
  state \<open>g\<close> and the caller's object \<open>a\<close>.  The first statement is \<open>df = df.copy()\<close>.
  The result is the store and generator state after the run, and the object returned or
  the exception.  (The encoders and the scaler that are returned with it are left out.)
\<close>

definition preprocess_steps :: "library \<Rightarrow> 'g numpy_random \<Rightarrow> 'g step list" where
  "preprocess_steps L R =
     [new_object Inr,
      in_place (\<lambda>df. Inr (rename_columns normalize_column df)),
      in_place (copy_column ''annual_rainfall'' ''rainfall''),
      in_place (copy_column ''area'' ''area_hectares''),
      in_place (copy_column ''crop_year'' ''year''),
      in_place (clean_column (num_str L) ''state''),
      in_place (clean_column (num_str L) ''district''),
      in_place (clean_column (num_str L) ''crop''),
      in_place (clean_column (num_str L) ''season''),
      in_place (\<lambda>df. Inr (normalize_season_column (num_str L) df)),
      in_place (\<lambda>df. Inr (add_region (num_str L) df)),
      in_place (convert_yield (round_float L)),
      new_object (\<lambda>df. detect_agronomic_outliers df ''crop'' ''yield''),
      in_place_rng (\<lambda>s. Inr (backfill_weather R s)),
      in_place_rng (\<lambda>s. Inr (backfill_soil R s)),
      in_place_rng (satellite_step R),
      in_place (productivity_index L),
      in_place (to_numeric_column L ''fertilizer''),
      in_place (intensity L ''fertilizer''),
      in_place (to_numeric_column L ''pesticide''),
      in_place (intensity L ''pesticide''),
      in_place (to_numeric_column L ''rainfall''),
      in_place (rainfall_category L),
      sort_step L,
      in_place (prev_year_yield L),
      in_place (yield_change L),
      in_place (encode L ''state''),
      in_place (encode L ''district''),
      in_place (encode L ''crop''),
      in_place (encode L ''season''),
      in_place (encode L ''region''),
      in_place (encode L ''soil_type''),
      in_place fill_numeric,
      in_place (scale L),
      in_place final_stats]"

definition preprocess_data ::
  "library \<Rightarrow> 'g numpy_random \<Rightarrow> heap \<times> 'g \<Rightarrow> nat \<Rightarrow> (heap \<times> 'g) \<times> (error + nat)" where
  "preprocess_data L R s a = run_steps (preprocess_steps L R) s a"

subsection \<open>Steps that leave the older objects alone\<close>

text \<open>
  A step keeps the frame when, run on an object \<open>a\<close> at or above a mark \<open>n\<close>, it
  leaves every object below the mark as it was, drops no object, and binds \<open>df\<close> again
  to an object at or above the mark.
\<close>

definition frame_step :: "'g step \<Rightarrow> bool" where
  "frame_step f \<longleftrightarrow>
     (\<forall>h g a n. n \<le> a \<and> a < length h \<longrightarrow>
        take n (fst (fst (f (h, g) a))) = take n h \<and>
        length h \<le> length (fst (fst (f (h, g) a))) \<and>
        (\<forall>a'. snd (f (h, g) a) = Inr a' \<longrightarrow> n \<le> a' \<and> a' < length (fst (fst (f (h, g) a)))))"

text \<open>A library and a table for examples.\<close>

definition plain_library :: library where
  "plain_library =
     \<lparr>round_float = (\<lambda>x. x),
      num_str = (\<lambda>_. ''0''),
      to_numeric = (\<lambda>cs. cs),
      per_area = (\<lambda>xs as. Inr xs),
      rainfall_cut = map (\<lambda>_. Str ''low''),
      sort_values = (\<lambda>df. df),
      shift_yield = (\<lambda>df. map (\<lambda>_. NaN) (rows df)),
      yield_minus = (\<lambda>xs ps. Inr xs),
      label_encode = map (\<lambda>_. Num 0),
      standard_scale = Inr\<rparr>"

definition example_table :: dataframe where
  "example_table =
     \<lparr>columns = [''State'', ''District'', '' Crop'', ''Season'', ''Yield'', ''Crop Year''],
      rows = [(\<lambda>_. NaN)(''State'' := Str ''Punjab'', ''District'' := Str ''Ludhiana'',
                '' Crop'' := Str ''Rice '', ''Season'' := Str ''Winter'', ''Yield'' := Num 5000,
                ''Crop Year'' := Num 2020)]\<rparr>"

section \<open>Properties\<close>

subsection \<open>Temporal cross-validation\<close>

lemma select_mask_map_set:
  "v \<in> set (select_mask (map P xs) xs) \<longleftrightarrow> v \<in> set xs \<and> P v"
  unfolding select_mask_def by (induction xs) auto

lemma select_mask_map_eq: "select_mask (map P xs) xs = filter P xs"
  unfolding select_mask_def by (induction xs) auto

lemma temporal_fold_SomeD:
  assumes "temporal_fold yr X y years i = Some f"
  shows "test_year f = year_from_end years i"
    and "train_mask f = map (\<lambda>v. v \<in> set (train_years_of years (test_year f))) yr"
    and "test_mask f = map (\<lambda>v. v = test_year f) yr"
    and "X_train f = select_mask (train_mask f) X"
    and "y_train f = select_mask (train_mask f) y"
    and "X_test f = select_mask (test_mask f) X"
    and "y_test f = select_mask (test_mask f) y"
    and "2 \<le> length (train_years_of years (test_year f))"
    and "10 \<le> length (X_test f)"
  using assms unfolding temporal_fold_def Let_def
  by (auto split: if_splits)

lemma temporal_folds_memD:
  assumes "f \<in> set (temporal_folds yr X y n)"
  shows "\<exists>i. temporal_fold yr X y (sorted_years yr) i = Some f"
  using assms unfolding temporal_folds_def Let_def
  by (auto simp: map_filter_def split: if_splits)

text \<open>
  Claim C1.  Every fold that temporal cross-validation fits and records trains only on
  rows whose year is strictly below the fold's test year, and tests only on rows whose
  year is the test year; the training and test rows handed to the estimator are the rows
  selected by these two masks.
\<close>

theorem temporal_cv_no_future_leakage:
  assumes "f \<in> set (temporal_folds yr X y n_splits)"
  shows "(\<forall>v \<in> set (select_mask (train_mask f) yr). v < test_year f) \<and>
         (\<forall>v \<in> set (select_mask (test_mask f) yr). v = test_year f) \<and>
         (\<forall>i < length yr. train_mask f ! i \<longrightarrow> yr ! i < test_year f) \<and>
         (\<forall>i < length yr. test_mask f ! i \<longrightarrow> yr ! i = test_year f) \<and>
         X_train f = select_mask (train_mask f) X \<and> y_train f = select_mask (train_mask f) y \<and>
         X_test f = select_mask (test_mask f) X \<and> y_test f = select_mask (test_mask f) y"
proof -
  from temporal_folds_memD [OF assms] obtain i
    where i: "temporal_fold yr X y (sorted_years yr) i = Some f" ..
  note d = temporal_fold_SomeD [OF i]
  have 1: "\<forall>v \<in> set (select_mask (train_mask f) yr). v < test_year f"
    by (simp add: d(2) select_mask_map_set train_years_of_def)
  have 2: "\<forall>v \<in> set (select_mask (test_mask f) yr). v = test_year f"
    by (simp add: d(3) select_mask_map_set)
  have 3: "\<forall>i < length yr. train_mask f ! i \<longrightarrow> yr ! i < test_year f"
    by (simp add: d(2) train_years_of_def)
  have 4: "\<forall>i < length yr. test_mask f ! i \<longrightarrow> yr ! i = test_year f"
    by (simp add: d(3))
  from 1 2 3 4 d(4-7) show ?thesis by blast
qed


lemma year_from_end_rev: "i < length Y \<Longrightarrow> year_from_end Y i = rev Y ! i"
  unfolding year_from_end_def by (simp add: rev_nth)

lemma candidates_take_rev:
  "map (year_from_end Y) (fold_range n Y) = take (nat (min n (int (length Y) - 2))) (rev Y)"
proof -
  let ?k = "nat (min n (int (length Y) - 2))"
  have k: "?k \<le> length Y" by auto
  have "map (year_from_end Y) [0..<?k] = map ((!) (rev Y)) [0..<?k]"
    using k by (intro map_cong refl) (simp add: year_from_end_rev)
  also have "\<dots> = take ?k (rev Y)"
  proof -
    have "map ((!) (rev Y)) [0..<?k] = map ((!) (rev Y)) (take ?k [0..<length (rev Y)])"
      using k by simp
    also have "\<dots> = take ?k (map ((!) (rev Y)) [0..<length (rev Y)])"
      by (simp only: take_map)
    also have "\<dots> = take ?k (rev Y)"
      by (simp only: map_nth)
    finally show ?thesis .
  qed
  finally show ?thesis by (simp add: fold_range_def)
qed

lemma temporal_fold_None_iff:
  "temporal_fold yr X y Y i = None \<longleftrightarrow> \<not> fold_kept yr X Y (year_from_end Y i)"
  unfolding temporal_fold_def fold_kept_def Let_def by (auto split: if_splits)

lemma temporal_fold_step:
  "map test_year (case temporal_fold yr X y Y i of None \<Rightarrow> [] | Some f \<Rightarrow> [f]) =
     filter (fold_kept yr X Y) [year_from_end Y i]"
proof (cases "temporal_fold yr X y Y i")
  case None
  then show ?thesis using temporal_fold_None_iff [of yr X y Y i] by simp
next
  case (Some f)
  then have "fold_kept yr X Y (year_from_end Y i)"
    using temporal_fold_None_iff [of yr X y Y i] by simp
  with Some temporal_fold_SomeD(1) [OF Some] show ?thesis by simp
qed

lemma map_filter_test_years:
  "map test_year (List.map_filter (temporal_fold yr X y Y) is) =
     filter (fold_kept yr X Y) (map (year_from_end Y) is)"
proof (induction "is")
  case Nil
  show ?case by (simp add: map_filter_simps)
next
  case (Cons i "is")
  have "List.map_filter (temporal_fold yr X y Y) (i # is) =
          (case temporal_fold yr X y Y i of None \<Rightarrow> [] | Some f \<Rightarrow> [f]) @
          List.map_filter (temporal_fold yr X y Y) is"
    by (simp add: map_filter_simps split: option.splits)
  then show ?case
    using temporal_fold_step [of yr X y Y i] Cons.IH by simp
qed

lemma recorded_test_years:
  "map test_year (temporal_folds yr X y n) =
     filter (fold_kept yr X (sorted_years yr))
       (take (nat (min n (int (length (sorted_years yr)) - 2))) (rev (sorted_years yr)))"
proof (cases "length (sorted_years yr) < 3")
  case True
  then show ?thesis by (simp add: temporal_folds_def)
next
  case False
  then show ?thesis
    by (simp add: temporal_folds_def Let_def map_filter_test_years candidates_take_rev)
qed

lemma sorted_years_fixed:
  "set yr = set Y \<Longrightarrow> sorted Y \<Longrightarrow> distinct Y \<Longrightarrow> sorted_years yr = Y"
  unfolding sorted_years_def
  by (metis distinct_remdups set_remdups sorted_distinct_set_unique sorted_sort distinct_sort set_sort)


text \<open>
  Claim C7.  With \<open>Y\<close> the sorted distinct years, temporal cross-validation considers
  exactly \<open>min(n_splits, |Y| - 2)\<close> candidate folds, whose test years are the largest
  years of \<open>Y\<close> in descending order; it records a candidate only if at least two
  training years and at least ten test rows remain.  With years 2018 to 2021 and five
  splits the candidates are 2021 and 2020, so at most two folds are recorded.
\<close>

theorem temporal_cv_fold_structure:
  "length (fold_range n_splits (sorted_years yr)) =
     nat (min n_splits (int (length (sorted_years yr)) - 2)) \<and>
   map (year_from_end (sorted_years yr)) (fold_range n_splits (sorted_years yr)) =
     take (nat (min n_splits (int (length (sorted_years yr)) - 2))) (rev (sorted_years yr)) \<and>
   map test_year (temporal_folds yr X y n_splits) =
     filter (fold_kept yr X (sorted_years yr))
       (take (nat (min n_splits (int (length (sorted_years yr)) - 2))) (rev (sorted_years yr))) \<and>
   (set yr = {2018, 2019, 2020, 2021} \<longrightarrow>
      map test_year (temporal_folds yr X y 5) =
        filter (fold_kept yr X [2018, 2019, 2020, 2021]) [2021, 2020] \<and>
      length (temporal_folds yr X y 5) \<le> 2)"
proof -
  have a: "length (fold_range n_splits (sorted_years yr)) =
     nat (min n_splits (int (length (sorted_years yr)) - 2))"
    by (simp add: fold_range_def)
  have d: "map test_year (temporal_folds yr X y 5) =
        filter (fold_kept yr X [2018, 2019, 2020, 2021]) [2021, 2020] \<and>
      length (temporal_folds yr X y 5) \<le> 2" if h: "set yr = {2018, 2019, 2020, 2021}"
  proof -
    have Y: "sorted_years yr = [2018, 2019, 2020, 2021]"
      by (rule sorted_years_fixed) (simp_all add: h)
    have m: "map test_year (temporal_folds yr X y 5) =
        filter (fold_kept yr X [2018, 2019, 2020, 2021]) [2021, 2020]"
      using recorded_test_years [of yr X y 5] by (simp add: Y)
    have "length (temporal_folds yr X y 5) = length (map test_year (temporal_folds yr X y 5))"
      by simp
    also have "\<dots> = length (filter (fold_kept yr X [2018, 2019, 2020, 2021]) [2021, 2020])"
      by (simp only: m)
    also have "\<dots> \<le> length [2021, 2020 :: int]"
      by (rule length_filter_le)
    finally have "length (temporal_folds yr X y 5) \<le> 2" by simp
    with m show ?thesis by simp
  qed
  from a candidates_take_rev recorded_test_years d show ?thesis by blast
qed

theorem temporal_cv_fold_structure_witness:
  "set ([2018, 2019] @ replicate 10 2020 @ replicate 10 (2021::int)) = {2018, 2019, 2020, 2021} \<and>
   map test_year (temporal_folds ([2018, 2019] @ replicate 10 2020 @ replicate 10 2021)
       (replicate 22 (0::nat)) (replicate 22 (0::nat)) 5) = [2021, 2020]"
proof -
  have h: "set ([2018, 2019] @ replicate 10 2020 @ replicate 10 (2021::int)) = {2018, 2019, 2020, 2021}"
    by auto
  have k: "filter (fold_kept ([2018, 2019] @ replicate 10 2020 @ replicate 10 2021)
             (replicate 22 (0::nat)) [2018, 2019, 2020, 2021]) [2021, 2020] = [2021, 2020]"
    by code_simp
  note t = temporal_cv_fold_structure [of 5 "[2018, 2019] @ replicate 10 2020 @ replicate 10 2021"
      "replicate 22 (0::nat)" "replicate 22 (0::nat)"]
  note u = t [THEN conjunct2, THEN conjunct2, THEN conjunct2, THEN mp, OF h, THEN conjunct1]
  from u k have "map test_year (temporal_folds ([2018, 2019] @ replicate 10 2020 @ replicate 10 2021)
       (replicate 22 (0::nat)) (replicate 22 (0::nat)) 5) = [2021, 2020]"
    by (rule trans)
  with h show ?thesis by (rule conjI)
qed

theorem temporal_cv_no_future_leakage_witness:
  "\<lparr>test_year = 2020,
     train_mask = [True, True] @ replicate 10 False,
     test_mask = [False, False] @ replicate 10 True,
     X_train = [0, 0::nat], y_train = [0, 0::nat],
     X_test = replicate 10 0, y_test = replicate 10 0\<rparr>
     \<in> set (temporal_folds ([2018, 2019] @ replicate 10 2020) (replicate 12 0) (replicate 12 0) 5) \<and>
   list_all (\<lambda>v. v < (2020::int))
     (select_mask ([True, True] @ replicate 10 False) ([2018, 2019] @ replicate 10 2020)) \<and>
   list_all (\<lambda>v. v = (2020::int))
     (select_mask ([False, False] @ replicate 10 True) ([2018, 2019] @ replicate 10 2020))"
proof -
  have h: "\<lparr>test_year = 2020,
     train_mask = [True, True] @ replicate 10 False,
     test_mask = [False, False] @ replicate 10 True,
     X_train = [0, 0::nat], y_train = [0, 0::nat],
     X_test = replicate 10 0, y_test = replicate 10 0\<rparr>
     \<in> set (temporal_folds ([2018, 2019] @ replicate 10 2020) (replicate 12 0) (replicate 12 0) 5)"
    by code_simp
  note t = temporal_cv_no_future_leakage [OF h]
  from t [THEN conjunct1] have a: "list_all (\<lambda>v. v < (2020::int))
     (select_mask ([True, True] @ replicate 10 False) ([2018, 2019] @ replicate 10 2020))"
    by (simp add: list_all_iff)
  from t [THEN conjunct2, THEN conjunct1] have b: "list_all (\<lambda>v. v = (2020::int))
     (select_mask ([False, False] @ replicate 10 True) ([2018, 2019] @ replicate 10 2020))"
    by (simp add: list_all_iff)
  from h a b show ?thesis by simp
qed

subsection \<open>Outlier filter and unit conversion\<close>

lemma default_limits_eq: "default_limits = (50, 100000)"
  by (simp add: default_limits_def CROP_YIELD_LIMITS_def)

lemma nan_not_crop: "map_of CROP_YIELD_LIMITS ''nan'' = None"
  by (simp add: CROP_YIELD_LIMITS_def)

lemma crop_limits_eq:
  "crop_limits c =
     (case c of
        Str s \<Rightarrow> (case map_of CROP_YIELD_LIMITS (py_strip (py_lower s)) of
                     Some l \<Rightarrow> l | None \<Rightarrow> (50, 100000))
      | _ \<Rightarrow> (50, 100000))"
  by (simp add: crop_limits_def limits_get_def default_limits_eq nan_not_crop split: cell.splits option.splits)

lemma crop_limits_NaN: "crop_limits NaN = default_limits"
  by (simp add: crop_limits_eq default_limits_eq)

lemma valid_within_retained:
  "valid_within (crop_limits c) y = Inr b \<Longrightarrow> b = retained c y"
  unfolding valid_within_def retained_def crop_limits_eq
  by (auto split: cell.splits if_splits prod.splits option.splits)

lemma valid_within_total:
  "valid_within l y = Inl e \<Longrightarrow> \<exists>s. y = Str s"
  unfolding valid_within_def
  by (auto split: cell.splits if_splits)

text \<open>The function the filter applies to a row, by the crop cell that is read.\<close>

lemma row_test_eq:
  "(if dup df cc then (\<lambda>r. valid_within default_limits (r yc)) else is_valid_yield cc yc) =
   (\<lambda>r. valid_within (crop_limits (if dup df cc then NaN else r cc)) (r yc))"
  by (auto simp: is_valid_yield_def crop_limits_NaN)

lemma apply_rows_Inr:
  "apply_rows f rs = Inr bs \<Longrightarrow> length bs = length rs \<and> (\<forall>i < length rs. f (rs ! i) = Inr (bs ! i))"
proof (induction rs arbitrary: bs)
  case Nil
  then show ?case by simp
next
  case (Cons r rs)
  from Cons.prems obtain b bs' where b: "f r = Inr b" and bs': "apply_rows f rs = Inr bs'"
    and eq: "bs = b # bs'"
    by (auto split: sum.splits)
  from Cons.IH [OF bs'] b show ?case
    unfolding eq by (auto simp: nth_Cons split: nat.splits)
qed

lemma apply_rows_Inl:
  "apply_rows f rs = Inl e \<Longrightarrow> \<exists>r \<in> set rs. f r = Inl e"
  by (induction rs) (auto split: sum.splits)

lemma select_mask_filter:
  "length bs = length xs \<Longrightarrow> \<forall>i < length xs. bs ! i = P (xs ! i) \<Longrightarrow>
     select_mask bs xs = filter P xs"
proof (induction xs arbitrary: bs)
  case Nil
  then show ?case by (simp add: select_mask_def)
next
  case (Cons x xs)
  then obtain b bs' where eq: "bs = b # bs'" by (cases bs) auto
  from Cons.prems have len: "length bs' = length xs" by (simp add: eq)
  from Cons.prems(2) have hd: "b = P x" by (auto simp: eq)
  from Cons.prems(2) have tl: "\<forall>i < length xs. bs' ! i = P (xs ! i)"
    by (auto simp: eq)
  from Cons.IH [OF len tl] hd show ?case
    by (simp add: eq select_mask_def)
qed

lemma apply_rows_filter:
  assumes "apply_rows (\<lambda>r. valid_within (crop_limits (k r)) (r yc)) rs = Inr bs"
  shows "select_mask bs rs = filter (\<lambda>r. retained (k r) (r yc)) rs"
proof (rule select_mask_filter)
  from apply_rows_Inr [OF assms] show "length bs = length rs" by simp
  from apply_rows_Inr [OF assms] show "\<forall>i<length rs. bs ! i = retained (k (rs ! i)) ((rs ! i) yc)"
    using valid_within_retained by blast
qed

text \<open>
  Claim C3 (amended).  On a table with at least one row, one crop and one yield column
  and no string in the yield column, the outlier filter returns a table; whenever it
  returns one, the columns are unchanged and the rows are, in the original order, exactly
  the records whose yield is present, strictly positive and within the bounds looked up
  under the crop name lower-cased and stripped of surrounding white space, with the
  default bounds \<open>(50, 100000)\<close> for a crop that is not in the table (and for every
  record where two columns bear the crop name, so that no name is read).  A record of
  rice with yield 5000 is retained, one with yield 9000 is not.
\<close>

theorem outlier_filter_retains:
  "(len df \<noteq> 0 \<and> has_col df crop_col \<and> has_col df yield_col \<and> \<not> dup df yield_col \<and>
    numeric_col df yield_col
      \<longrightarrow> (\<exists>out. detect_agronomic_outliers df crop_col yield_col = Inr out)) \<and>
   (detect_agronomic_outliers df crop_col yield_col = Inr df'
      \<longrightarrow> columns df' = columns df \<and>
          rows df' = filter (\<lambda>r. retained (if dup df crop_col then NaN else r crop_col)
                                          (r yield_col)) (rows df)) \<and>
   retained (Str ''rice'') (Num 5000) \<and> \<not> retained (Str ''rice'') (Num 9000)"
proof (intro conjI impI)
  let ?f = "\<lambda>r. valid_within (crop_limits (if dup df crop_col then NaN else r crop_col))
                   (r yield_col)"
  assume a: "len df \<noteq> 0 \<and> has_col df crop_col \<and> has_col df yield_col \<and> \<not> dup df yield_col \<and>
    numeric_col df yield_col"
  have "apply_rows ?f (rows df) \<noteq> Inl e" for e
  proof
    assume "apply_rows ?f (rows df) = Inl e"
    from apply_rows_Inl [OF this] obtain r where r: "r \<in> set (rows df)"
      and "?f r = Inl e" by blast
    from valid_within_total [OF this(2)] obtain s where "r yield_col = Str s" ..
    with a r show False by (auto simp: numeric_col_def list_all_iff)
  qed
  then obtain bs where "apply_rows ?f (rows df) = Inr bs"
    by (cases "apply_rows ?f (rows df)") auto
  with a show "\<exists>out. detect_agronomic_outliers df crop_col yield_col = Inr out"
    by (simp add: detect_agronomic_outliers_def row_test_eq)
next
  let ?f = "\<lambda>r. valid_within (crop_limits (if dup df crop_col then NaN else r crop_col))
                   (r yield_col)"
  assume d: "detect_agronomic_outliers df crop_col yield_col = Inr df'"
  then obtain bs where bs: "apply_rows ?f (rows df) = Inr bs"
    and eq: "df' = df\<lparr>rows := select_mask bs (rows df)\<rparr>"
    by (auto simp: detect_agronomic_outliers_def row_test_eq split: if_splits sum.splits)
  show "columns df' = columns df" by (simp add: eq)
  show "rows df' = filter (\<lambda>r. retained (if dup df crop_col then NaN else r crop_col)
                                          (r yield_col)) (rows df)"
    by (simp add: eq apply_rows_filter [OF bs])
next
  show "retained (Str ''rice'') (Num 5000)"
    by (simp add: retained_def CROP_YIELD_LIMITS_def py_lower_def py_strip_def lower_char_def
        is_space_def upper_letters_def lower_letters_def)
  show "\<not> retained (Str ''rice'') (Num 9000)"
    by (simp add: retained_def CROP_YIELD_LIMITS_def py_lower_def py_strip_def lower_char_def
        is_space_def upper_letters_def lower_letters_def)
qed

lemmas eval_defs = detect_agronomic_outliers_def len_def has_col_def dup_def is_valid_yield_def
  valid_within_def crop_limits_def limits_get_def default_limits_def CROP_YIELD_LIMITS_def
  py_lower_def py_strip_def lower_char_def upper_letters_def lower_letters_def is_space_def
  select_mask_def

theorem outlier_filter_retains_witness:
  "detect_agronomic_outliers
     \<lparr>columns = [''crop'', ''yield''],
      rows = [(\<lambda>_. NaN)(''crop'' := Str ''rice'', ''yield'' := Num 9000),
              (\<lambda>_. NaN)(''crop'' := Str ''rice'', ''yield'' := Num 5000)]\<rparr> ''crop'' ''yield'' =
     Inr \<lparr>columns = [''crop'', ''yield''],
          rows = [(\<lambda>_. NaN)(''crop'' := Str ''rice'', ''yield'' := Num 5000)]\<rparr> \<and>
   filter (\<lambda>r. retained (r ''crop'') (r ''yield''))
     [(\<lambda>_. NaN)(''crop'' := Str ''rice'', ''yield'' := Num 9000),
      (\<lambda>_. NaN)(''crop'' := Str ''rice'', ''yield'' := Num 5000)] =
     [(\<lambda>_. NaN)(''crop'' := Str ''rice'', ''yield'' := Num 5000)]"
proof -
  have nd: "\<not> dup \<lparr>columns = [''crop'', ''yield''],
      rows = [(\<lambda>_. NaN)(''crop'' := Str ''rice'', ''yield'' := Num 9000),
              (\<lambda>_. NaN)(''crop'' := Str ''rice'', ''yield'' := Num 5000)]\<rparr> ''crop''"
    by (simp add: dup_def)
  let ?df = "\<lparr>columns = [''crop'', ''yield''],
      rows = [(\<lambda>_. NaN)(''crop'' := Str ''rice'', ''yield'' := Num 9000),
              (\<lambda>_. NaN)(''crop'' := Str ''rice'', ''yield'' := Num 5000)]\<rparr>"
  let ?out = "\<lparr>columns = [''crop'', ''yield''],
          rows = [(\<lambda>_. NaN)(''crop'' := Str ''rice'', ''yield'' := Num 5000)]\<rparr>"
  have h: "detect_agronomic_outliers ?df ''crop'' ''yield'' = Inr ?out"
    by (simp add: eval_defs)
  from outlier_filter_retains [of ?df "''crop''" "''yield''" ?out, THEN conjunct2, THEN conjunct1, THEN mp, OF h]
  have "rows ?out = filter (\<lambda>r. retained (if dup ?df ''crop'' then NaN else r ''crop'')
                                          (r ''yield'')) (rows ?df)"
    by (rule conjunct2)
  then have "rows ?out = filter (\<lambda>r. retained (r ''crop'') (r ''yield'')) (rows ?df)"
    by (simp only: nd if_False)
  then have "filter (\<lambda>r. retained (r ''crop'') (r ''yield'')) (rows ?df) = rows ?out"
    by (rule sym)
  then have "filter (\<lambda>r. retained (r ''crop'') (r ''yield''))
     [(\<lambda>_. NaN)(''crop'' := Str ''rice'', ''yield'' := Num 9000),
      (\<lambda>_. NaN)(''crop'' := Str ''rice'', ''yield'' := Num 5000)] =
     [(\<lambda>_. NaN)(''crop'' := Str ''rice'', ''yield'' := Num 5000)]"
    by (simp only: dataframe.simps)
  with h show ?thesis by (rule conjI)
qed

text \<open>
  The lookup is not under the lower-cased name as it stands: the name \<open>" rice"\<close> is
  no key of the table, so that rule retains a yield of 9000 under the default bounds,
  while the filter strips the name, applies the bounds of rice and drops the record.
\<close>

theorem outlier_filter_exact_lookup_counterexample:
  "spec_retains '' rice'' (Some 9000) \<and>
   detect_agronomic_outliers
     \<lparr>columns = [''crop'', ''yield''],
      rows = [(\<lambda>_. NaN)(''crop'' := Str '' rice'', ''yield'' := Num 9000)]\<rparr> ''crop'' ''yield'' =
     Inr \<lparr>columns = [''crop'', ''yield''], rows = []\<rparr>"
  by (simp add: eval_defs spec_retains_def spec_bounds_def)


lemma upd_rows_same:
  "length vs = length rs \<Longrightarrow> map (\<lambda>r. r c) (map (\<lambda>(r, v). r(c := v)) (zip rs vs)) = vs"
  by (induction vs rs rule: list_induct2) auto

lemma upd_rows_other:
  "length vs = length rs \<Longrightarrow> c' \<noteq> c \<Longrightarrow>
     map (\<lambda>r. r c') (map (\<lambda>(r, v). r(c := v)) (zip rs vs)) = map (\<lambda>r. r c') rs"
  by (induction vs rs rule: list_induct2) auto

lemma get_col_set_col_same:
  "length vs = length (rows df) \<Longrightarrow> get_col (set_col df c vs) c = vs"
  unfolding get_col_def set_col_def by (simp del: map_map add: upd_rows_same)

lemma get_col_set_col_other:
  "length vs = length (rows df) \<Longrightarrow> c' \<noteq> c \<Longrightarrow> get_col (set_col df c vs) c' = get_col df c'"
  unfolding get_col_def set_col_def by (simp del: map_map add: upd_rows_other)

lemma columns_set_col_present:
  "has_col df c \<Longrightarrow> columns (set_col df c vs) = columns df"
  by (simp add: has_col_def set_col_def)

text \<open>
  Step 6 on a table with one yield column whose median is \<open>m\<close>: if \<open>m < 100\<close>, the
  table handed to the outlier filter has every yield multiplied by 1000 in the arithmetic
  of the column and every other column unchanged; if \<open>m \<ge> 100\<close>, the filter receives
  the table unchanged.  The int64 product is the exact product when that lies in the
  int64 range; the float64 product of 4.5 is 4500, which rounding leaves as it is.
\<close>

lemma unit_conversion_effect:
  assumes "has_col df ''yield''" and "\<not> dup df ''yield''"
    and "median fl (get_col df ''yield'') = Inr (Some m)"
  shows "(m < 100 \<longrightarrow>
           (\<exists>df1. convert_yield fl df = Inr df1 \<and>
                  get_col df1 ''yield'' = times_1000_col fl (get_col df ''yield'') \<and>
                  (\<forall>c. c \<noteq> ''yield'' \<longrightarrow> get_col df1 c = get_col df c) \<and>
                  columns df1 = columns df \<and>
                  convert_and_filter fl df = detect_agronomic_outliers df1 ''crop'' ''yield'')) \<and>
         (100 \<le> m \<longrightarrow>
            convert_yield fl df = Inr df \<and>
            convert_and_filter fl df = detect_agronomic_outliers df ''crop'' ''yield'')"
proof (intro conjI impI)
  assume m: "m < 100"
  let ?df1 = "set_col df ''yield'' (times_1000_col fl (get_col df ''yield''))"
  have len: "length (times_1000_col fl (get_col df ''yield'')) = length (rows df)"
    by (simp add: get_col_def times_1000_col_def)
  have c: "convert_yield fl df = Inr ?df1"
    using assms m by (simp add: convert_yield_def)
  have "get_col ?df1 ''yield'' = times_1000_col fl (get_col df ''yield'')"
    by (rule get_col_set_col_same [OF len])
  moreover have "\<forall>c. c \<noteq> ''yield'' \<longrightarrow> get_col ?df1 c = get_col df c"
    using get_col_set_col_other [OF len] by blast
  moreover have "columns ?df1 = columns df"
    by (rule columns_set_col_present [OF assms(1)])
  moreover have "convert_and_filter fl df = detect_agronomic_outliers ?df1 ''crop'' ''yield''"
    by (simp add: convert_and_filter_def c)
  ultimately show "\<exists>df1. convert_yield fl df = Inr df1 \<and>
                  get_col df1 ''yield'' = times_1000_col fl (get_col df ''yield'') \<and>
                  (\<forall>c. c \<noteq> ''yield'' \<longrightarrow> get_col df1 c = get_col df c) \<and>
                  columns df1 = columns df \<and>
                  convert_and_filter fl df = detect_agronomic_outliers df1 ''crop'' ''yield''"
    using c by blast
next
  assume m: "100 \<le> m"
  show c: "convert_yield fl df = Inr df"
    using assms m by (simp add: convert_yield_def)
  show "convert_and_filter fl df = detect_agronomic_outliers df ''crop'' ''yield''"
    by (simp add: convert_and_filter_def c)
qed

lemma wrap64_in_range: "- (2 ^ 63) \<le> i \<Longrightarrow> i < 2 ^ 63 \<Longrightarrow> wrap64 i = i"
  unfolding wrap64_def by (simp add: mod_pos_pos_trivial)

lemma times_1000_in_range:
  "- (2 ^ 63) \<le> i * 1000 \<Longrightarrow> i * 1000 < 2 ^ 63 \<Longrightarrow> times_1000 fl True (I64 i) = I64 (i * 1000)"
  by (simp add: times_1000_def wrap64_in_range)

lemma times_1000_float: "fl 4500 = 4500 \<Longrightarrow> times_1000 fl b (Num 4.5) = Num 4500"
  by (simp add: times_1000_def)

text \<open>
  Claim C6.  On an int64 yield column the product wraps around.  In a table of three
  records of millet with the integer yields 1, 2 and 18446744073709552 the median is 2,
  so the yields are multiplied by 1000; the third product, 18446744073709552000, exceeds
  every bound, but the int64 product is 384, and the filter, which checks the record
  against the default bounds as 384, retains it.  (The rounding to float64 is exact on
  the values that occur here.)
\<close>

theorem unit_conversion_int64_wraps:
  "convert_and_filter (\<lambda>x. x)
     \<lparr>columns = [''crop'', ''yield''],
      rows = [(\<lambda>_. NaN)(''crop'' := Str ''millet'', ''yield'' := I64 1),
              (\<lambda>_. NaN)(''crop'' := Str ''millet'', ''yield'' := I64 2),
              (\<lambda>_. NaN)(''crop'' := Str ''millet'', ''yield'' := I64 18446744073709552)]\<rparr> =
     Inr \<lparr>columns = [''crop'', ''yield''],
          rows = [(\<lambda>_. NaN)(''crop'' := Str ''millet'', ''yield'' := I64 1000),
                  (\<lambda>_. NaN)(''crop'' := Str ''millet'', ''yield'' := I64 2000),
                  (\<lambda>_. NaN)(''crop'' := Str ''millet'', ''yield'' := I64 384)]\<rparr> \<and>
   \<not> retained (Str ''millet'') (I64 (18446744073709552 * 1000))"
proof -
  let ?df = "\<lparr>columns = [''crop'', ''yield''],
      rows = [(\<lambda>_. NaN)(''crop'' := Str ''millet'', ''yield'' := I64 1),
              (\<lambda>_. NaN)(''crop'' := Str ''millet'', ''yield'' := I64 2),
              (\<lambda>_. NaN)(''crop'' := Str ''millet'', ''yield'' := I64 18446744073709552)]\<rparr>"
  let ?dfc = "\<lparr>columns = [''crop'', ''yield''],
          rows = [(\<lambda>_. NaN)(''crop'' := Str ''millet'', ''yield'' := I64 1000),
                  (\<lambda>_. NaN)(''crop'' := Str ''millet'', ''yield'' := I64 2000),
                  (\<lambda>_. NaN)(''crop'' := Str ''millet'', ''yield'' := I64 384)]\<rparr>"
  have h1: "has_col ?df ''yield''" and h2: "\<not> dup ?df ''yield''"
    by (simp_all add: has_col_def dup_def)
  have h3: "median (\<lambda>x. x) (get_col ?df ''yield'') = Inr (Some 2)"
    by (simp add: get_col_def median_def nums_of_def median_sorted_def)
  have c: "convert_yield (\<lambda>x. x) ?df = Inr ?dfc"
    unfolding convert_yield_def
    by (simp only: h1 h2 h3 if_True if_False sum.case option.case)
       (simp add: get_col_def set_col_def times_1000_col_def times_1000_def is_int_col_def
          wrap64_def)
  have d: "detect_agronomic_outliers ?dfc ''crop'' ''yield'' = Inr ?dfc"
    by (simp add: eval_defs)
  have 1: "convert_and_filter (\<lambda>x. x) ?df = Inr ?dfc"
    by (simp only: convert_and_filter_def c sum.case d)
  have 2: "\<not> retained (Str ''millet'') (I64 (18446744073709552 * 1000))"
    by (simp add: retained_def CROP_YIELD_LIMITS_def py_lower_def py_strip_def lower_char_def
        is_space_def upper_letters_def lower_letters_def)
  from 1 2 show ?thesis by (rule conjI)
qed

text \<open>
  A float column with median 45: the raw yield 4.5 is checked as 4500 and retained,
  the raw yields 45 and 85.5 are checked as 45000 and 85500 and dropped.
\<close>

lemma unit_conversion_example:
  "convert_and_filter (\<lambda>x. x) \<lparr>columns = [''crop'', ''yield''],
      rows = [(\<lambda>_. NaN)(''crop'' := Str ''rice'', ''yield'' := Num 45),
              (\<lambda>_. NaN)(''crop'' := Str ''rice'', ''yield'' := Num 4.5),
              (\<lambda>_. NaN)(''crop'' := Str ''rice'', ''yield'' := Num 85.5)]\<rparr> =
     Inr \<lparr>columns = [''crop'', ''yield''],
          rows = [(\<lambda>_. NaN)(''crop'' := Str ''rice'', ''yield'' := Num 4500)]\<rparr>"
proof -
  let ?df = "\<lparr>columns = [''crop'', ''yield''],
      rows = [(\<lambda>_. NaN)(''crop'' := Str ''rice'', ''yield'' := Num 45),
              (\<lambda>_. NaN)(''crop'' := Str ''rice'', ''yield'' := Num 4.5),
              (\<lambda>_. NaN)(''crop'' := Str ''rice'', ''yield'' := Num 85.5)]\<rparr>"
  let ?dfc = "\<lparr>columns = [''crop'', ''yield''],
      rows = [(\<lambda>_. NaN)(''crop'' := Str ''rice'', ''yield'' := Num 45000),
              (\<lambda>_. NaN)(''crop'' := Str ''rice'', ''yield'' := Num 4500),
              (\<lambda>_. NaN)(''crop'' := Str ''rice'', ''yield'' := Num 85500)]\<rparr>"
  have h1: "has_col ?df ''yield''" and h2: "\<not> dup ?df ''yield''"
    by (simp_all add: has_col_def dup_def)
  have h3: "median (\<lambda>x. x) (get_col ?df ''yield'') = Inr (Some 45)"
    by (simp add: get_col_def median_def nums_of_def median_sorted_def)
  have c: "convert_yield (\<lambda>x. x) ?df = Inr ?dfc"
    unfolding convert_yield_def
    by (simp only: h1 h2 h3 if_True if_False sum.case option.case)
       (simp add: get_col_def set_col_def times_1000_col_def times_1000_def is_int_col_def)
  have d: "detect_agronomic_outliers ?dfc ''crop'' ''yield'' =
     Inr \<lparr>columns = [''crop'', ''yield''],
          rows = [(\<lambda>_. NaN)(''crop'' := Str ''rice'', ''yield'' := Num 4500)]\<rparr>"
    by (simp add: eval_defs)
  from unit_conversion_effect [OF h1 h2 h3]
  obtain df1 where "convert_yield (\<lambda>x. x) ?df = Inr df1"
    and "convert_and_filter (\<lambda>x. x) ?df = detect_agronomic_outliers df1 ''crop'' ''yield''"
    by auto
  with c d show ?thesis by simp
qed

subsection \<open>Backfill of missing columns\<close>

lemma length_draws: "length (fst (draws f g n)) = n"
  by (induction n arbitrary: g) (simp_all add: case_prod_unfold)

lemma length_uniform: "length (fst (uniform R g lo hi n)) = n"
  using length_draws [of "random_sample R" g n]
  by (simp add: uniform_def case_prod_unfold)

lemma length_choice: "length (fst (choice R g opts n)) = n"
  using length_draws [of "randint R (length opts)" g n]
  by (simp add: choice_def case_prod_unfold)

lemma has_col_set_col: "has_col (set_col df c vs) c' \<longleftrightarrow> c' = c \<or> has_col df c'"
  by (auto simp: has_col_def set_col_def)

lemma len_set_col: "length vs = len df \<Longrightarrow> len (set_col df c vs) = len df"
  by (simp add: len_def set_col_def)

lemma get_col_set_col:
  "length vs = len df \<Longrightarrow> get_col (set_col df c vs) c' = (if c' = c then vs else get_col df c')"
  using get_col_set_col_same [of vs df c] get_col_set_col_other [of vs df c' c]
  by (simp add: len_def)

lemma backfill_weather_eq:
  "fst (backfill_weather R (df, g)) =
     (if has_col df ''temperature'' then df
      else set_col (set_col df ''temperature'' (map Num (weather_temp R g (len df))))
             ''humidity'' (map Num (weather_hum R g (len df))))"
proof -
  have "len (set_col df ''temperature'' (map Num (fst (uniform R g 25 35 (len df))))) = len df"
    by (rule len_set_col) (simp add: length_uniform)
  then show ?thesis
    by (simp add: backfill_weather_def weather_temp_def weather_hum_def Let_def case_prod_unfold)
qed

lemma backfill_weather_cols:
  "has_col (fst (backfill_weather R (df, g))) c \<longleftrightarrow>
     has_col df c \<or> (\<not> has_col df ''temperature'' \<and> (c = ''temperature'' \<or> c = ''humidity''))"
  by (auto simp: backfill_weather_eq has_col_set_col)

lemma backfill_weather_len: "len (fst (backfill_weather R (df, g))) = len df"
  by (simp add: backfill_weather_eq len_set_col weather_temp_def weather_hum_def length_uniform)

lemma backfill_weather_get:
  "get_col (fst (backfill_weather R (df, g))) c =
     (if has_col df ''temperature'' then get_col df c
      else if c = ''humidity'' then map Num (weather_hum R g (len df))
      else if c = ''temperature'' then map Num (weather_temp R g (len df))
      else get_col df c)"
  by (simp add: backfill_weather_eq get_col_set_col len_set_col weather_temp_def weather_hum_def
      length_uniform)

lemma backfill_soil_eq:
  "fst (backfill_soil R (df, g)) =
     (if has_col df ''soil_type'' then df
      else set_col df ''soil_type'' (map Str (fst (choice R g soil_types (len df)))))"
  by (simp add: backfill_soil_def case_prod_unfold)

lemma backfill_soil_cols:
  "has_col (fst (backfill_soil R (df, g))) c \<longleftrightarrow>
     has_col df c \<or> (\<not> has_col df ''soil_type'' \<and> c = ''soil_type'')"
  by (auto simp: backfill_soil_eq has_col_set_col)

lemma backfill_soil_len: "len (fst (backfill_soil R (df, g))) = len df"
  by (simp add: backfill_soil_eq len_set_col length_choice)

lemma backfill_soil_get:
  "get_col (fst (backfill_soil R (df, g))) c =
     (if \<not> has_col df ''soil_type'' \<and> c = ''soil_type''
      then map Str (fst (choice R g soil_types (len df)))
      else get_col df c)"
  by (simp add: backfill_soil_eq get_col_set_col length_choice)

lemma sat_frame_len: "len (sat_frame R df) = len df"
  by (simp add: sat_frame_def len_set_col sat_ndvi_def sat_moisture_def length_uniform)

lemma sat_frame_cols:
  "has_col (sat_frame R df) c \<longleftrightarrow> c = ''ndvi'' \<or> c = ''soil_moisture'' \<or> has_col df c"
  by (auto simp: sat_frame_def has_col_set_col)

lemma sat_frame_get:
  "get_col (sat_frame R df) c =
     (if c = ''soil_moisture'' then map Num (sat_moisture R (len df))
      else if c = ''ndvi'' then map Num (sat_ndvi R (len df))
      else get_col df c)"
  by (simp add: sat_frame_def get_col_set_col len_set_col sat_ndvi_def sat_moisture_def
      length_uniform)

lemma len_set_col_uniform:
  "len (set_col df c (map Num (fst (uniform R g lo hi (len df))))) = len df"
  by (rule len_set_col) (simp add: length_uniform)

lemma backfill_satellite_eq:
  assumes "has_col df ''temperature''"
  shows "backfill_satellite R (df, g) =
     (if has_col df ''ndvi'' then Inr (df, g)
      else case add_noise (get_col df ''temperature'') (satellite_noise R (len df)) of
             Inl e \<Rightarrow> Inl e
           | Inr l \<Rightarrow>
               Inr (set_col (sat_frame R df) ''lst'' l,
                    snd (uniform R (snd (uniform R (snd (uniform R (np_seed R 42) 0.3 0.8 (len df)))
                           15 45 (len df))) (- 2) 5 (len df))))"
  using assms
  by (simp add: backfill_satellite_def Let_def case_prod_unfold sat_frame_def sat_ndvi_def
      sat_moisture_def satellite_noise_def len_set_col_uniform has_col_set_col get_col_set_col
      length_uniform cong: sum.case_cong)

lemma add_noise_length:
  "add_noise cs xs = Inr vs \<Longrightarrow> length cs = length xs \<Longrightarrow> length vs = length cs"
  by (induction cs xs arbitrary: vs rule: add_noise.induct)
     (auto split: cell.splits sum.splits)

lemma add_noise_Inl:
  "add_noise cs xs = Inl e \<Longrightarrow> e = TypeError \<and> list_ex (\<lambda>c. case c of Str _ \<Rightarrow> True | _ \<Rightarrow> False) cs"
  by (induction cs xs rule: add_noise.induct) (auto split: cell.splits sum.splits)

lemma backfill_soil_cols':
  "has_col (fst (backfill_soil R s)) c \<longleftrightarrow>
     has_col (fst s) c \<or> (\<not> has_col (fst s) ''soil_type'' \<and> c = ''soil_type'')"
  by (cases s) (simp add: backfill_soil_cols)

lemma backfill_soil_len': "len (fst (backfill_soil R s)) = len (fst s)"
  by (cases s) (simp add: backfill_soil_len)

lemma backfill_soil_get':
  "get_col (fst (backfill_soil R s)) c =
     (if \<not> has_col (fst s) ''soil_type'' \<and> c = ''soil_type''
      then map Str (fst (choice R (snd s) soil_types (len (fst s))))
      else get_col (fst s) c)"
  by (cases s) (simp add: backfill_soil_get)

lemma pre_sat_cols:
  "has_col (pre_sat R g df) c \<longleftrightarrow>
     has_col df c \<or>
     (\<not> has_col df ''temperature'' \<and> (c = ''temperature'' \<or> c = ''humidity'')) \<or>
     (\<not> has_col df ''soil_type'' \<and> c = ''soil_type'')"
  unfolding pre_sat_def backfill_soil_cols' backfill_weather_cols by auto

lemma pre_sat_temperature: "has_col (pre_sat R g df) ''temperature''"
  by (simp add: pre_sat_cols)

lemma pre_sat_len: "len (pre_sat R g df) = len df"
  unfolding pre_sat_def by (simp add: backfill_soil_len' backfill_weather_len)

lemma pre_sat_get:
  "get_col (pre_sat R g df) c =
     (if \<not> has_col df ''soil_type'' \<and> c = ''soil_type'' then map Str (soil_draw R g df)
      else if has_col df ''temperature'' then get_col df c
      else if c = ''humidity'' then map Num (weather_hum R g (len df))
      else if c = ''temperature'' then map Num (weather_temp R g (len df))
      else get_col df c)"
  unfolding pre_sat_def backfill_soil_get' backfill_weather_get backfill_weather_cols
    backfill_weather_len soil_draw_def
  by simp

lemma backfill_alt:
  "backfill R g df =
     backfill_satellite R (pre_sat R g df, snd (backfill_soil R (backfill_weather R (df, g))))"
  by (simp add: backfill_def pre_sat_def)

lemma backfill_cases:
  "backfill R g df =
     (if has_col df ''ndvi''
      then Inr (pre_sat R g df, snd (backfill_soil R (backfill_weather R (df, g))))
      else case add_noise (get_col (pre_sat R g df) ''temperature'') (satellite_noise R (len df)) of
             Inl e \<Rightarrow> Inl e
           | Inr l \<Rightarrow>
               Inr (set_col (sat_frame R (pre_sat R g df)) ''lst'' l,
                    snd (uniform R (snd (uniform R (snd (uniform R (np_seed R 42) 0.3 0.8 (len df)))
                           15 45 (len df))) (- 2) 5 (len df))))"
  unfolding backfill_alt backfill_satellite_eq [OF pre_sat_temperature] pre_sat_len
  by (simp add: pre_sat_cols)

lemma backfill_present:
  assumes "has_col df ''ndvi''" and "backfill R g df = Inr (df', g')"
  shows "df' = pre_sat R g df"
  using assms by (simp add: backfill_cases)

lemma backfill_absent:
  assumes "\<not> has_col df ''ndvi''" and "backfill R g df = Inr (df', g')"
  obtains l where "add_noise (get_col (pre_sat R g df) ''temperature'') (satellite_noise R (len df)) = Inr l"
    and "length l = len df"
    and "df' = set_col (sat_frame R (pre_sat R g df)) ''lst'' l"
proof -
  from assms obtain l where
    l: "add_noise (get_col (pre_sat R g df) ''temperature'') (satellite_noise R (len df)) = Inr l"
    and d: "df' = set_col (sat_frame R (pre_sat R g df)) ''lst'' l"
    by (auto simp: backfill_cases split: sum.splits)
  have "length (get_col (pre_sat R g df) ''temperature'') = length (satellite_noise R (len df))"
    using pre_sat_len [of R g df]
    by (simp add: get_col_def len_def satellite_noise_def length_uniform)
  from add_noise_length [OF l this] have "length l = len df"
    using pre_sat_len [of R g df] by (simp add: get_col_def len_def)
  with l d that show thesis by blast
qed

lemma backfill_cols:
  assumes "backfill R g df = Inr (df', g')"
  shows "has_col df' c \<longleftrightarrow>
     has_col df c \<or>
     (\<not> has_col df ''temperature'' \<and> (c = ''temperature'' \<or> c = ''humidity'')) \<or>
     (\<not> has_col df ''soil_type'' \<and> c = ''soil_type'') \<or>
     (\<not> has_col df ''ndvi'' \<and> (c = ''ndvi'' \<or> c = ''soil_moisture'' \<or> c = ''lst''))"
proof (cases "has_col df ''ndvi''")
  case True
  from backfill_present [OF True assms] show ?thesis
    using True by (auto simp: pre_sat_cols)
next
  case False
  from backfill_absent [OF False assms] obtain l
    where "df' = set_col (sat_frame R (pre_sat R g df)) ''lst'' l" by blast
  then show ?thesis
    using False by (auto simp: has_col_set_col sat_frame_cols pre_sat_cols)
qed

lemma backfill_get:
  assumes "backfill R g df = Inr (df', g')"
  shows "get_col df' c =
     (if \<not> has_col df ''ndvi'' \<and> c = ''lst'' then get_col df' ''lst''
      else if \<not> has_col df ''ndvi'' \<and> c = ''soil_moisture'' then map Num (sat_moisture R (len df))
      else if \<not> has_col df ''ndvi'' \<and> c = ''ndvi'' then map Num (sat_ndvi R (len df))
      else get_col (pre_sat R g df) c)"
proof (cases "has_col df ''ndvi''")
  case True
  from backfill_present [OF True assms] show ?thesis
    using True by simp
next
  case False
  from backfill_absent [OF False assms] obtain l
    where l: "length l = len df" and d: "df' = set_col (sat_frame R (pre_sat R g df)) ''lst'' l"
    by blast
  have "length l = len (sat_frame R (pre_sat R g df))"
    by (simp add: l sat_frame_len pre_sat_len)
  then show ?thesis
    using False by (simp add: d get_col_set_col sat_frame_get pre_sat_len)
qed

lemma backfill_lst:
  assumes "\<not> has_col df ''ndvi''" and "backfill R g df = Inr (df', g')"
  shows "add_noise (get_col df' ''temperature'') (satellite_noise R (len df)) = Inr (get_col df' ''lst'')"
proof -
  from backfill_absent [OF assms] obtain l
    where a: "add_noise (get_col (pre_sat R g df) ''temperature'') (satellite_noise R (len df)) = Inr l"
      and l: "length l = len df" and d: "df' = set_col (sat_frame R (pre_sat R g df)) ''lst'' l"
    by blast
  have ll: "length l = len (sat_frame R (pre_sat R g df))"
    by (simp add: l sat_frame_len pre_sat_len)
  have "get_col df' ''lst'' = l"
    by (simp add: d get_col_set_col [OF ll])
  moreover have "get_col df' ''temperature'' = get_col (pre_sat R g df) ''temperature''"
    using backfill_get [OF assms(2), of "''temperature''"] by simp
  ultimately show ?thesis using a by simp
qed

lemma draws_set: "x \<in> set (fst (draws f g n)) \<Longrightarrow> \<exists>g'. x = fst (f g')"
  by (induction n arbitrary: g) (auto simp: case_prod_unfold)

lemma uniform_range:
  assumes "unit_gen R" and "lo < hi"
  shows "list_all (\<lambda>x. lo \<le> x \<and> x < hi) (fst (uniform R g lo hi n))"
proof -
  have "lo \<le> lo + (hi - lo) * u \<and> lo + (hi - lo) * u < hi"
    if "u \<in> set (fst (draws (random_sample R) g n))" for u
  proof -
    from draws_set [OF that] obtain g' where "u = fst (random_sample R g')" ..
    with assms(1) have u: "0 \<le> u" "u < 1" by (simp_all add: unit_gen_def)
    from assms(2) have d: "0 < hi - lo" by simp
    from u(1) d have "0 \<le> (hi - lo) * u" by simp
    moreover from u(2) d have "(hi - lo) * u < (hi - lo) * 1"
      by (simp only: mult_less_cancel_left_pos)
    ultimately show ?thesis by simp
  qed
  then show ?thesis
    by (simp add: uniform_def case_prod_unfold list_all_iff)
qed

lemma choice_range:
  assumes "bounded_gen R" and "opts \<noteq> []"
  shows "set (fst (choice R g opts n)) \<subseteq> set opts"
proof -
  have "opts ! i \<in> set opts" if "i \<in> set (fst (draws (randint R (length opts)) g n))" for i
  proof -
    from draws_set [OF that] obtain g' where "i = fst (randint R (length opts) g')" ..
    with assms have "i < length opts" by (simp add: bounded_gen_def)
    then show ?thesis by simp
  qed
  then show ?thesis
    by (auto simp: choice_def case_prod_unfold)
qed

lemma backfill_total:
  assumes "backfill R g df = Inl e"
  shows "e = TypeError \<and> \<not> has_col df ''ndvi'' \<and> has_col df ''temperature'' \<and>
         \<not> numeric_col df ''temperature''"
proof -
  from assms have n: "\<not> has_col df ''ndvi''"
    by (auto simp: backfill_cases split: if_splits)
  with assms have
    "add_noise (get_col (pre_sat R g df) ''temperature'') (satellite_noise R (len df)) = Inl e"
    by (auto simp: backfill_cases split: sum.splits)
  from add_noise_Inl [OF this] have e: "e = TypeError"
    and ex: "list_ex (\<lambda>c. case c of Str _ \<Rightarrow> True | _ \<Rightarrow> False) (get_col (pre_sat R g df) ''temperature'')"
    by simp_all
  have t: "has_col df ''temperature''"
  proof (rule ccontr)
    assume "\<not> has_col df ''temperature''"
    with ex show False by (simp add: pre_sat_get list_ex_iff)
  qed
  with ex have "list_ex (\<lambda>c. case c of Str _ \<Rightarrow> True | _ \<Rightarrow> False) (get_col df ''temperature'')"
    by (simp add: pre_sat_get)
  then have "\<not> numeric_col df ''temperature''"
    by (auto simp: numeric_col_def get_col_def list_ex_iff list_all_iff split: cell.splits)
  with e n t show ?thesis by simp
qed


lemmas backfill_eval = backfill_def backfill_weather_def backfill_soil_def backfill_satellite_def
  uniform_def choice_def counter_gen_def soil_types_def len_def has_col_def set_col_def
  get_col_def Let_def



lemma backfill_success:
  assumes "has_col df ''ndvi'' \<or> \<not> has_col df ''temperature'' \<or> numeric_col df ''temperature''"
  shows "\<exists>out. backfill R g df = Inr out"
proof (cases "backfill R g df")
  case (Inl e)
  from backfill_total [OF Inl] assms show ?thesis by simp
next
  case (Inr out)
  then show ?thesis by blast
qed

lemma backfill_ranges:
  assumes "unit_gen R"
  shows "list_all (\<lambda>x. 25 \<le> x \<and> x < 35) (weather_temp R g n)"
    and "list_all (\<lambda>x. 40 \<le> x \<and> x < 80) (weather_hum R g n)"
    and "list_all (\<lambda>x. 0.3 \<le> x \<and> x < 0.8) (sat_ndvi R n)"
    and "list_all (\<lambda>x. 15 \<le> x \<and> x < 45) (sat_moisture R n)"
    and "list_all (\<lambda>x. - 2 \<le> x \<and> x < 5) (satellite_noise R n)"
  unfolding weather_temp_def weather_hum_def sat_ndvi_def sat_moisture_def satellite_noise_def
  by (rule uniform_range [OF assms], simp)+

lemma soil_draw_range: "bounded_gen R \<Longrightarrow> set (soil_draw R g df) \<subseteq> set soil_types"
  unfolding soil_draw_def by (rule choice_range) (simp_all add: soil_types_def)

text \<open>
  What the backfill does, block by block.  When it returns, the temperature, soil type
  and vegetation index columns are present.  The weather block is entered when the
  temperature is absent and assigns temperature and humidity; the satellite block is
  entered when the vegetation index is absent and assigns vegetation index, soil
  moisture and land surface temperature.  What is drawn is drawn from the fixed ranges.
  The backfill returns unless it must add to a temperature column that holds a string.
\<close>

lemma backfill_effect:
  "(backfill R g df = Inr (df', g') \<longrightarrow>
      has_col df' ''temperature'' \<and> has_col df' ''soil_type'' \<and> has_col df' ''ndvi'' \<and>
      (has_col df' ''humidity'' \<longleftrightarrow> has_col df ''humidity'' \<or> \<not> has_col df ''temperature'') \<and>
      (has_col df' ''soil_moisture'' \<longleftrightarrow> has_col df ''soil_moisture'' \<or> \<not> has_col df ''ndvi'') \<and>
      (has_col df' ''lst'' \<longleftrightarrow> has_col df ''lst'' \<or> \<not> has_col df ''ndvi'') \<and>
      (\<not> has_col df ''temperature'' \<longrightarrow>
         get_col df' ''temperature'' = map Num (weather_temp R g (len df)) \<and>
         get_col df' ''humidity'' = map Num (weather_hum R g (len df))) \<and>
      (\<not> has_col df ''soil_type'' \<longrightarrow>
         get_col df' ''soil_type'' = map Str (soil_draw R g df)) \<and>
      (\<not> has_col df ''ndvi'' \<longrightarrow>
         get_col df' ''ndvi'' = map Num (sat_ndvi R (len df)) \<and>
         get_col df' ''soil_moisture'' = map Num (sat_moisture R (len df)) \<and>
         add_noise (get_col df' ''temperature'') (satellite_noise R (len df)) =
           Inr (get_col df' ''lst''))) \<and>
   (has_col df ''ndvi'' \<or> \<not> has_col df ''temperature'' \<or> numeric_col df ''temperature'' \<longrightarrow>
      (\<exists>out. backfill R g df = Inr out)) \<and>
   (unit_gen R \<longrightarrow>
      list_all (\<lambda>x. 25 \<le> x \<and> x < 35) (weather_temp R g n) \<and>
      list_all (\<lambda>x. 40 \<le> x \<and> x < 80) (weather_hum R g n) \<and>
      list_all (\<lambda>x. 0.3 \<le> x \<and> x < 0.8) (sat_ndvi R n) \<and>
      list_all (\<lambda>x. 15 \<le> x \<and> x < 45) (sat_moisture R n) \<and>
      list_all (\<lambda>x. - 2 \<le> x \<and> x < 5) (satellite_noise R n)) \<and>
   (bounded_gen R \<longrightarrow> set (soil_draw R g df) \<subseteq> set soil_types)"
proof (intro conjI impI)
  assume b: "backfill R g df = Inr (df', g')"
  note c = backfill_cols [OF b]
  note v = backfill_get [OF b]
  show "has_col df' ''temperature''" by (simp add: c)
  show "has_col df' ''soil_type''" by (simp add: c)
  show "has_col df' ''ndvi''" by (simp add: c)
  show "has_col df' ''humidity'' \<longleftrightarrow> has_col df ''humidity'' \<or> \<not> has_col df ''temperature''"
    by (simp add: c)
  show "has_col df' ''soil_moisture'' \<longleftrightarrow> has_col df ''soil_moisture'' \<or> \<not> has_col df ''ndvi''"
    by (simp add: c)
  show "has_col df' ''lst'' \<longleftrightarrow> has_col df ''lst'' \<or> \<not> has_col df ''ndvi''"
    by (simp add: c)
  show "get_col df' ''temperature'' = map Num (weather_temp R g (len df))"
    if "\<not> has_col df ''temperature''"
    using that by (simp add: v [of "''temperature''"] pre_sat_get)
  show "get_col df' ''humidity'' = map Num (weather_hum R g (len df))"
    if "\<not> has_col df ''temperature''"
    using that by (simp add: v [of "''humidity''"] pre_sat_get)
  show "get_col df' ''soil_type'' = map Str (soil_draw R g df)"
    if "\<not> has_col df ''soil_type''"
    using that by (simp add: v [of "''soil_type''"] pre_sat_get)
  show "get_col df' ''ndvi'' = map Num (sat_ndvi R (len df))"
    if "\<not> has_col df ''ndvi''"
    using that by (simp add: v [of "''ndvi''"])
  show "get_col df' ''soil_moisture'' = map Num (sat_moisture R (len df))"
    if "\<not> has_col df ''ndvi''"
    using that by (simp add: v [of "''soil_moisture''"])
  show "add_noise (get_col df' ''temperature'') (satellite_noise R (len df)) =
           Inr (get_col df' ''lst'')"
    if "\<not> has_col df ''ndvi''"
    using that b by (rule backfill_lst)
next
  assume "has_col df ''ndvi'' \<or> \<not> has_col df ''temperature'' \<or> numeric_col df ''temperature''"
  then show "\<exists>out. backfill R g df = Inr out" by (rule backfill_success)
next
  assume u: "unit_gen R"
  show "list_all (\<lambda>x. 25 \<le> x \<and> x < 35) (weather_temp R g n)"
    and "list_all (\<lambda>x. 40 \<le> x \<and> x < 80) (weather_hum R g n)"
    and "list_all (\<lambda>x. 0.3 \<le> x \<and> x < 0.8) (sat_ndvi R n)"
    and "list_all (\<lambda>x. 15 \<le> x \<and> x < 45) (sat_moisture R n)"
    and "list_all (\<lambda>x. - 2 \<le> x \<and> x < 5) (satellite_noise R n)"
    by (rule backfill_ranges [OF u])+
next
  assume "bounded_gen R"
  then show "set (soil_draw R g df) \<subseteq> set soil_types" by (rule soil_draw_range)
qed


lemma counter_gen_unit: "unit_gen counter_gen"
  by (simp add: unit_gen_def counter_gen_def)

lemma counter_gen_bounded: "bounded_gen counter_gen"
  by (simp add: bounded_gen_def counter_gen_def)

text \<open>
  Claim C4.  The six columns are not backfilled one by one: humidity is assigned only
  inside the block that tests for the temperature, soil moisture and land surface
  temperature only inside the block that tests for the vegetation index.  A table that
  has temperature and vegetation index but lacks humidity, soil moisture and land surface
  temperature comes out of the backfill with none of the three; only the soil type is
  added.
\<close>

theorem backfill_leaves_columns_absent:
  "backfill counter_gen 0
     \<lparr>columns = [''crop'', ''yield'', ''temperature'', ''ndvi''],
         rows = [(\<lambda>_. NaN)(''crop'' := Str ''rice'', ''yield'' := Num 5000,
                   ''temperature'' := Num 30, ''ndvi'' := Num (1 / 2))]\<rparr> =
     Inr (\<lparr>columns = [''crop'', ''yield'', ''temperature'', ''ndvi'', ''soil_type''],
         rows = [(\<lambda>_. NaN)(''crop'' := Str ''rice'', ''yield'' := Num 5000,
                   ''temperature'' := Num 30, ''ndvi'' := Num (1 / 2),
                   ''soil_type'' := Str ''clay'')]\<rparr>, 1) \<and>
   \<not> has_col \<lparr>columns = [''crop'', ''yield'', ''temperature'', ''ndvi'', ''soil_type''],
         rows = [(\<lambda>_. NaN)(''crop'' := Str ''rice'', ''yield'' := Num 5000,
                   ''temperature'' := Num 30, ''ndvi'' := Num (1 / 2),
                   ''soil_type'' := Str ''clay'')]\<rparr> ''humidity'' \<and>
   \<not> has_col \<lparr>columns = [''crop'', ''yield'', ''temperature'', ''ndvi'', ''soil_type''],
         rows = [(\<lambda>_. NaN)(''crop'' := Str ''rice'', ''yield'' := Num 5000,
                   ''temperature'' := Num 30, ''ndvi'' := Num (1 / 2),
                   ''soil_type'' := Str ''clay'')]\<rparr> ''soil_moisture'' \<and>
   \<not> has_col \<lparr>columns = [''crop'', ''yield'', ''temperature'', ''ndvi'', ''soil_type''],
         rows = [(\<lambda>_. NaN)(''crop'' := Str ''rice'', ''yield'' := Num 5000,
                   ''temperature'' := Num 30, ''ndvi'' := Num (1 / 2),
                   ''soil_type'' := Str ''clay'')]\<rparr> ''lst''"
  by (simp add: backfill_eval)

text \<open>
  What the satellite block draws after seeding does not depend on the state in which
  the run starts.
\<close>

lemma backfill_seeded_columns:
  assumes "\<not> has_col df ''ndvi''"
    and "backfill R g1 df = Inr (d1, h1)" and "backfill R g2 df = Inr (d2, h2)"
  shows "get_col d1 ''ndvi'' = get_col d2 ''ndvi'' \<and>
         get_col d1 ''soil_moisture'' = get_col d2 ''soil_moisture''"
  using assms backfill_get [of R g1 df d1 h1] backfill_get [of R g2 df d2 h2]
  by simp

text \<open>
  Claim C8.  The generator is seeded inside the satellite block only, after the weather
  and soil blocks have drawn: two runs on one table that start from different generator
  states synthesize different temperature, humidity and soil type columns (and, with the
  temperature, different land surface temperatures), while the vegetation index and the
  soil moisture agree.
\<close>

theorem backfill_two_runs_differ:
  "backfill counter_gen 5
     \<lparr>columns = [''crop'', ''yield''],
         rows = [(\<lambda>_. NaN)(''crop'' := Str ''wheat'', ''yield'' := Num 3000)]\<rparr> =
     Inr (\<lparr>columns = [''crop'', ''yield'', ''temperature'', ''humidity'', ''soil_type'',
                   ''ndvi'', ''soil_moisture'', ''lst''],
         rows = [(\<lambda>_. NaN)(''crop'' := Str ''wheat'', ''yield'' := Num 3000,
                   ''temperature'' := Num 30, ''humidity'' := Num 64,
                   ''soil_type'' := Str ''sandy'', ''ndvi'' := Num (2 / 5),
                   ''soil_moisture'' := Num 24, ''lst'' := Num (154 / 5))]\<rparr>, 45) \<and>
   backfill counter_gen 6
     \<lparr>columns = [''crop'', ''yield''],
         rows = [(\<lambda>_. NaN)(''crop'' := Str ''wheat'', ''yield'' := Num 3000)]\<rparr> =
     Inr (\<lparr>columns = [''crop'', ''yield'', ''temperature'', ''humidity'', ''soil_type'',
                   ''ndvi'', ''soil_moisture'', ''lst''],
         rows = [(\<lambda>_. NaN)(''crop'' := Str ''wheat'', ''yield'' := Num 3000,
                   ''temperature'' := Num 31, ''humidity'' := Num 68,
                   ''soil_type'' := Str ''loamy'', ''ndvi'' := Num (2 / 5),
                   ''soil_moisture'' := Num 24, ''lst'' := Num (159 / 5))]\<rparr>, 45) \<and>
   get_col \<lparr>columns = [''crop'', ''yield'', ''temperature'', ''humidity'', ''soil_type'',
                   ''ndvi'', ''soil_moisture'', ''lst''],
         rows = [(\<lambda>_. NaN)(''crop'' := Str ''wheat'', ''yield'' := Num 3000,
                   ''temperature'' := Num 30, ''humidity'' := Num 64,
                   ''soil_type'' := Str ''sandy'', ''ndvi'' := Num (2 / 5),
                   ''soil_moisture'' := Num 24, ''lst'' := Num (154 / 5))]\<rparr> ''temperature'' \<noteq> get_col \<lparr>columns = [''crop'', ''yield'', ''temperature'', ''humidity'', ''soil_type'',
                   ''ndvi'', ''soil_moisture'', ''lst''],
         rows = [(\<lambda>_. NaN)(''crop'' := Str ''wheat'', ''yield'' := Num 3000,
                   ''temperature'' := Num 31, ''humidity'' := Num 68,
                   ''soil_type'' := Str ''loamy'', ''ndvi'' := Num (2 / 5),
                   ''soil_moisture'' := Num 24, ''lst'' := Num (159 / 5))]\<rparr> ''temperature''"
  by (simp add: backfill_eval)


subsection \<open>Spatial cross-validation and the metrics record\<close>

lemma argmin_less: "xs \<noteq> [] \<Longrightarrow> argmin xs < length xs"
  by (induction xs rule: argmin.induct) (auto simp: Let_def)

lemma distribute_range:
  "pf \<noteq> [] \<Longrightarrow> (g, f) \<in> set (distribute w gs pf) \<Longrightarrow> f < length pf"
proof (induction gs arbitrary: pf)
  case Nil
  then show ?case by simp
next
  case (Cons a gs)
  let ?pf = "pf[argmin pf := pf ! argmin pf + w a]"
  have ne: "?pf \<noteq> []" using Cons.prems(1) by simp
  from Cons.prems(2) consider "f = argmin pf" | "(g, f) \<in> set (distribute w gs ?pf)"
    by (auto simp: Let_def)
  then show ?case
  proof cases
    case 1
    then show ?thesis using argmin_less [OF Cons.prems(1)] by simp
  next
    case 2
    from Cons.IH [OF ne 2] show ?thesis by simp
  qed
qed

lemma fold_of_less: "0 < k \<Longrightarrow> fold_of k groups g < k"
proof -
  assume k: "0 < k"
  show ?thesis
  proof (cases "map_of (group_to_fold k groups) g")
    case None
    then show ?thesis using k by (simp add: fold_of_def)
  next
    case (Some f)
    then have "(g, f) \<in> set (group_to_fold k groups)" by (rule map_of_SomeD)
    then have "f < length (replicate k (0::nat))"
      unfolding group_to_fold_def Let_def
      by (rule distribute_range [rotated]) (use k in simp)
    with Some show ?thesis by (simp add: fold_of_def)
  qed
qed

lemma gkf_fold_ok:
  "fold_ok groups
     (filter (\<lambda>i. fold_of k groups (groups ! i) \<noteq> f) [0 ..< length groups],
      filter (\<lambda>i. fold_of k groups (groups ! i) = f) [0 ..< length groups])"
  unfolding fold_ok_def iloc_def by auto

lemma gkf_split_Inr:
  assumes "length X = length groups" and "k \<le> length (remdups groups)"
  shows "gkf_split k X groups =
     Inr (map (\<lambda>f. (filter (\<lambda>i. fold_of k groups (groups ! i) \<noteq> f) [0 ..< length groups],
                    filter (\<lambda>i. fold_of k groups (groups ! i) = f) [0 ..< length groups]))
              [0 ..< k])"
proof -
  have "length (remdups groups) \<le> length groups" by (rule length_remdups_leq)
  with assms(2) have "k \<le> length groups" by (rule order_trans)
  with assms show ?thesis by (simp add: gkf_split_def)
qed

text \<open>
  Claim C2 (amended).  For a district column with at least two distinct districts, at
  least two requested splits, and a feature table of as many rows, spatial
  cross-validation splits the rows into \<open>min(n_splits, number of distinct districts)\<close>
  folds; in every fold no district occurs on both the training and the test side, the
  two sides split the rows, and every row is a test row of exactly one fold.
\<close>

theorem spatial_cv_group_disjoint:
  assumes "2 \<le> n_splits" and "2 \<le> length (remdups groups)" and "length X = length groups"
  shows "\<exists>folds. spatial_folds groups X n_splits = Inr (Inr folds) \<and>
           length folds = nat (min n_splits (int (length (remdups groups)))) \<and>
           list_all (fold_ok groups) folds \<and>
           (\<forall>i < length groups. \<exists>!f. f < length folds \<and> i \<in> set (snd (folds ! f)))"
proof -
  let ?k = "nat (min n_splits (int (length (remdups groups))))"
  let ?folds = "map (\<lambda>f. (filter (\<lambda>i. fold_of ?k groups (groups ! i) \<noteq> f) [0 ..< length groups],
                    filter (\<lambda>i. fold_of ?k groups (groups ! i) = f) [0 ..< length groups]))
              [0 ..< ?k]"
  from assms(1,2) have g: "GroupKFold (min n_splits (int (length (remdups groups)))) = Inr ?k"
    by (simp add: GroupKFold_def)
  have kle: "?k \<le> length (remdups groups)" by simp
  have kpos: "0 < ?k" using assms(1,2) by linarith
  have s: "spatial_folds groups X n_splits = Inr (Inr ?folds)"
    by (simp add: spatial_folds_def g gkf_split_Inr [OF assms(3) kle])
  have l: "length ?folds = ?k" by simp
  have ok: "list_all (fold_ok groups) ?folds"
    by (simp add: list_all_iff gkf_fold_ok)
  have part: "\<exists>!f. f < length ?folds \<and> i \<in> set (snd (?folds ! f))" if "i < length groups" for i
  proof (rule ex1I [of _ "fold_of ?k groups (groups ! i)"])
    show "fold_of ?k groups (groups ! i) < length ?folds \<and>
          i \<in> set (snd (?folds ! fold_of ?k groups (groups ! i)))"
      using fold_of_less [OF kpos, of groups "groups ! i"] that by simp
  next
    fix f
    assume a: "f < length ?folds \<and> i \<in> set (snd (?folds ! f))"
    from a have fk: "f < ?k" by simp
    from a have "i \<in> set (snd (?folds ! f))" ..
    with fk show "f = fold_of ?k groups (groups ! i)" by simp
  qed
  from s l ok part show ?thesis by blast
qed

theorem spatial_cv_group_disjoint_witness:
  "(2::int) \<le> 5 \<and> 2 \<le> length (remdups [''pune'', ''agra'', ''pune'', ''kota'']) \<and>
   length [0, 1, 2, 3::nat] = length [''pune'', ''agra'', ''pune'', ''kota''] \<and>
   spatial_folds [''pune'', ''agra'', ''pune'', ''kota''] [0, 1, 2, 3::nat] 5 =
     Inr (Inr [([1, 3], [0, 2]), ([0, 1, 2], [3]), ([0, 2, 3], [1])]) \<and>
   list_all (fold_ok [''pune'', ''agra'', ''pune'', ''kota''])
     [([1, 3], [0, 2]), ([0, 1, 2], [3]), ([0, 2, 3], [1])]"
proof -
  have h1: "(2::int) \<le> 5" by simp
  have h2: "2 \<le> length (remdups [''pune'', ''agra'', ''pune'', ''kota''])" by simp
  have h3: "length [0, 1, 2, 3::nat] = length [''pune'', ''agra'', ''pune'', ''kota'']" by simp
  have e: "spatial_folds [''pune'', ''agra'', ''pune'', ''kota''] [0, 1, 2, 3::nat] 5 =
     Inr (Inr [([1, 3], [0, 2]), ([0, 1, 2], [3]), ([0, 2, 3], [1])])"
    by code_simp
  from spatial_cv_group_disjoint [OF h1 h2 h3] obtain folds
    where "spatial_folds [''pune'', ''agra'', ''pune'', ''kota''] [0, 1, 2, 3::nat] 5 = Inr (Inr folds)"
      and "list_all (fold_ok [''pune'', ''agra'', ''pune'', ''kota'']) folds"
    by blast
  with e have "list_all (fold_ok [''pune'', ''agra'', ''pune'', ''kota''])
     [([1, 3], [0, 2]), ([0, 1, 2], [3]), ([0, 2, 3], [1])]"
    by simp
  with h1 h2 h3 e show ?thesis by blast
qed

text \<open>
  With a single district the requested number of splits is one, which the splitter
  refuses when it is built: there are no folds, the function raises.
\<close>

theorem spatial_cv_single_district_counterexample:
  "spatial_folds [''pune'', ''pune'', ''pune''] [0, 1, 2::nat] 5 = Inl ValueError"
  by (simp add: spatial_folds_def GroupKFold_def)

lemma np_mean_single: "np_mean [r] = Some r"
  by (simp add: np_mean_def)

lemma temporal_fallback:
  assumes "year = None \<or> (\<exists>ys. year = Some ys \<and> length (sorted_years ys) < 3)"
  shows "np_mean (get_r2 (temporal_cv ev year X y n) r2) = Some r2"
  using assms by (auto simp: temporal_cv_def get_r2_def np_mean_def)

lemma spatial_fallback:
  "spatial_cv ev None X y n = Inr Map.empty \<and> np_mean (get_r2 Map.empty r2) = Some r2"
  by (simp add: spatial_cv_def get_r2_def np_mean_def)

text \<open>
  Claim C5.  The holdout score stands in only when a cross-validation returns the empty
  dictionary.  With three distinct years and fewer than ten rows in the test year every
  candidate fold is skipped, the returned list of scores is empty and the recorded mean
  is \<open>nan\<close>, not the holdout score; with a single district the splitter's
  \<open>ValueError\<close> is raised outside the \<open>try\<close> and ends the run.
\<close>

theorem cv_mean_not_fallback:
  "train_production_model (\<lambda>_ _ _ _. (0, 0, 0)) (9 / 10)
     (Some [2018, 2019, 2020, 2020]) (None :: string list option)
     [0, 0, 0, 0::nat] [0, 0, 0, 0::nat] =
     Inr \<lparr>r2_score = 9 / 10, temporal_cv_r2_mean = None, spatial_cv_r2_mean = Some (9 / 10)\<rparr> \<and>
   train_production_model (\<lambda>_ _ _ _. (0, 0, 0)) (9 / 10)
     None (Some [''pune'', ''pune'', ''pune'', ''pune''])
     [0, 0, 0, 0::nat] [0, 0, 0, 0::nat] = Inl ValueError"
proof -
  have t: "temporal_folds [2018, 2019, 2020, 2020] [0, 0, 0, 0::nat] [0, 0, 0, 0::nat] 5 = []"
    by code_simp
  have y: "length (sorted_years [2018, 2019, 2020, 2020]) = 3"
    by code_simp
  have a: "temporal_cv (\<lambda>_ _ _ _. (0, 0, 0)) (Some [2018, 2019, 2020, 2020])
      [0, 0, 0, 0::nat] [0, 0, 0, 0::nat] 5 ''r2'' = Some []"
    by (simp only: temporal_cv_def option.case y t) (simp add: results_of_def)
  have s: "spatial_folds [''pune'', ''pune'', ''pune'', ''pune''] [0, 0, 0, 0::nat] 5 = Inl ValueError"
    by code_simp
  have 1: "train_production_model (\<lambda>_ _ _ _. (0, 0, 0)) (9 / 10)
     (Some [2018, 2019, 2020, 2020]) (None :: string list option)
     [0, 0, 0, 0::nat] [0, 0, 0, 0::nat] =
     Inr \<lparr>r2_score = 9 / 10, temporal_cv_r2_mean = None, spatial_cv_r2_mean = Some (9 / 10)\<rparr>"
    unfolding train_production_model_def Let_def get_r2_def a
    by (simp add: np_mean_def spatial_cv_def)
  have 2: "train_production_model (\<lambda>_ _ _ _. (0, 0, 0)) (9 / 10)
     None (Some [''pune'', ''pune'', ''pune'', ''pune''])
     [0, 0, 0, 0::nat] [0, 0, 0, 0::nat] = Inl ValueError"
    unfolding train_production_model_def Let_def spatial_cv_def option.case s
    by simp
  from 1 2 show ?thesis by (rule conjI)
qed

subsection \<open>Schema normalization on examples\<close>

lemma region_of_punjab:
  "map_state_to_region ns (Str ''PUNJAB, INDIA'') = Str ''north-india''"
  by code_simp

lemma region_of_unknown:
  "map_state_to_region ns (Str ''UNKNOWNLAND'') = Str ''central-india''"
  by code_simp

lemma season_of_winter:
  "normalize_season ns (Str '' Winter '') = Str ''rabi''"
  by code_simp

subsection \<open>The caller's table is not written\<close>

lemma frame_in_place: "frame_step (in_place t)"
  unfolding frame_step_def in_place_def
  by (auto split: sum.splits)

lemma frame_in_place_rng: "frame_step (in_place_rng t)"
  unfolding frame_step_def in_place_rng_def
  by (auto split: sum.splits prod.splits)

lemma frame_new_object: "frame_step (new_object t)"
  unfolding frame_step_def new_object_def
  by (auto split: sum.splits)

lemma frame_sort_step: "frame_step (sort_step L)"
  unfolding frame_step_def sort_step_def new_object_def
  by (auto split: sum.splits)

lemma run_steps_frame:
  assumes "list_all frame_step fs" and "n \<le> a" and "a < length h"
  shows "take n (fst (fst (run_steps fs (h, g) a))) = take n h \<and>
         (\<forall>b. snd (run_steps fs (h, g) a) = Inr b \<longrightarrow> n \<le> b)"
  using assms
proof (induction fs arbitrary: h g a)
  case Nil
  then show ?case by simp
next
  case (Cons f fs)
  from Cons.prems have f: "frame_step f" and fs: "list_all frame_step fs" by simp_all
  obtain h' g' r where e: "f (h, g) a = ((h', g'), r)" by (metis prod.exhaust)
  from f Cons.prems(2,3) e have t: "take n h' = take n h"
    and r: "\<And>a'. r = Inr a' \<Longrightarrow> n \<le> a' \<and> a' < length h'"
    unfolding frame_step_def by (metis fst_conv snd_conv)+
  show ?case
  proof (cases r)
    case (Inl err)
    with e t show ?thesis by simp
  next
    case (Inr a')
    from r [OF Inr] have "n \<le> a'" "a' < length h'" by simp_all
    from Cons.IH [OF fs this] e Inr t show ?thesis by simp
  qed
qed

lemma preprocess_steps_frame: "list_all frame_step (tl (preprocess_steps L R))"
  unfolding preprocess_steps_def
  by (simp add: frame_in_place frame_in_place_rng frame_new_object frame_sort_step)

text \<open>
  Claim C10.  \<open>preprocess_data\<close> works on a copy: whatever the store, the generator
  state and the library computations are, and whether the run returns or raises, every
  table object that existed before the call is unchanged after it, the caller's table
  among them; the table that is returned is an object made during the call.
\<close>

theorem preprocess_data_frame:
  "take (length h) (fst (fst (preprocess_data L R (h, g) a))) = h \<and>
   (a < length h \<longrightarrow> fst (fst (preprocess_data L R (h, g) a)) ! a = h ! a) \<and>
   (\<forall>b. snd (preprocess_data L R (h, g) a) = Inr b \<longrightarrow> length h \<le> b)"
proof -
  let ?rest = "tl (preprocess_steps L R)"
  have p: "preprocess_data L R (h, g) a = run_steps ?rest (h @ [h ! a], g) (length h)"
    by (simp add: preprocess_data_def preprocess_steps_def new_object_def)
  have r: "take (length h) (fst (fst (run_steps ?rest (h @ [h ! a], g) (length h)))) =
        take (length h) (h @ [h ! a]) \<and>
        (\<forall>b. snd (run_steps ?rest (h @ [h ! a], g) (length h)) = Inr b \<longrightarrow> length h \<le> b)"
    by (rule run_steps_frame [OF preprocess_steps_frame]) simp_all
  then have 1: "take (length h) (fst (fst (preprocess_data L R (h, g) a))) = h"
    by (simp add: p)
  from r have 3: "\<forall>b. snd (preprocess_data L R (h, g) a) = Inr b \<longrightarrow> length h \<le> b"
    by (simp add: p)
  have 2: "fst (fst (preprocess_data L R (h, g) a)) ! a = h ! a" if "a < length h"
  proof -
    have "take (length h) (fst (fst (preprocess_data L R (h, g) a))) ! a = h ! a"
      by (simp only: 1)
    with that show ?thesis by simp
  qed
  from 1 2 3 show ?thesis by blast
qed

theorem preprocess_data_frame_witness:
  "0 < length [example_table] \<and>
   fst (fst (preprocess_data plain_library counter_gen ([example_table], 5) 0)) ! 0 = example_table \<and>
   snd (preprocess_data plain_library counter_gen ([example_table], 5) 0) = Inr 3 \<and>
   length [example_table] \<le> 3"
proof -
  note t = preprocess_data_frame [of "[example_table]" plain_library counter_gen 5 0]
  have h: "0 < length [example_table]" by simp
  from t h have 1: "fst (fst (preprocess_data plain_library counter_gen ([example_table], 5) 0)) ! 0 =
      [example_table] ! 0" by blast
  have r: "snd (preprocess_data plain_library counter_gen ([example_table], 5) 0) = Inr 3"
    by code_simp
  from t r have 2: "length [example_table] \<le> 3" by blast
  from h 1 r 2 show ?thesis by simp
qed

end
